theory Spec2Isabelle
  imports Main "HOL-Library.Multiset" "HOL-Library.List_Lexorder"
begin

section \<open>Data model\<close>

text \<open>
  The program is \<^verbatim>\<open>src/app.py\<close>, a Streamlit front end over a SQL Server database.
  A Python \<^verbatim>\<open>str\<close> is a sequence of Unicode code points, a \<^verbatim>\<open>datetime.date\<close> is its
  ordinal, a \<^verbatim>\<open>datetime.time\<close> is the number of microseconds since midnight (the order
  of two naive times is the order of these numbers) and a SQL \<^verbatim>\<open>datetime\<close> is a point on
  an integer time line.
\<close>

type_synonym pystr = "nat list"
type_synonym pydate = int
type_synonym pytime = nat
type_synonym pydatetime = int

text \<open>The values of the column \<^verbatim>\<open>Reservations.Statut\<close> that the pages distinguish.\<close>

datatype statut = EnAttente | Validee | Refusee | Annulee

record utilisateur =
  UserID :: int
  Nom :: pystr
  Prenom :: pystr
  Email :: pystr
  Role :: pystr
  Actif :: bool

record salle =
  SalleID :: int
  NomSalle :: pystr
  Capacite :: int
  Equipements :: pystr
  Localisation :: pystr
  Disponible :: bool

record type_evenement =
  TypeID :: int
  NomType :: pystr
  Description :: pystr
  DureeMin :: nat
  DureeMax :: nat

record reservation =
  ReservationID :: int
  r_UserID :: int
  r_SalleID :: int
  r_TypeID :: int
  ObjetReunion :: pystr
  DateReservation :: pydate
  HeureDebut :: pytime
  HeureFin :: pytime
  Statut :: statut
  DateCreation :: pydatetime
  Commentaires :: "pystr option"
  ManagerID :: "int option"

record database =
  Utilisateurs :: "utilisateur list"
  Salles :: "salle list"
  TypesEvenements :: "type_evenement list"
  Reservations :: "reservation list"

text \<open>The error taxonomy of the specification (section 7).\<close>

datatype erreur =
  InvalidInput | NotFound | Conflict | IllegalTransition | Forbidden | StorageUnavailable

text \<open>
  The messages with which the three pages of the reservations and the two functions of
  access to the database report an outcome (\<^verbatim>\<open>st.error\<close>, \<^verbatim>\<open>st.info\<close>, \<^verbatim>\<open>st.success\<close>). What
  a page only displays is left out: titles, the lines of \<^verbatim>\<open>st.write\<close>, the line of
  information about the selected room in \<^verbatim>\<open>reservation_page\<close> and the badge of the status
  on each row of \<^verbatim>\<open>mes_reservations_page\<close>. One constructor for each message:
  \<^item> \<open>ErreurRequete\<close>: "Erreur lors de l'execution de la requete: e" (\<^verbatim>\<open>execute_query\<close>);
  \<^item> \<open>ErreurProcedure e\<close>: "Erreur lors de l'execution de la procedure: e"
    (\<^verbatim>\<open>execute_procedure\<close>);
  \<^item> \<open>ImpossibleCharger\<close>: "Impossible de charger les donnees";
  \<^item> \<open>ObjetObligatoire\<close>: "L'objet de la reunion est obligatoire";
  \<^item> \<open>HeureFinInvalide\<close>: "L'heure de fin doit etre superieure a l'heure de debut";
  \<^item> \<open>SalleNonDisponible\<close>: "La salle n'est pas disponible pour ce creneau";
  \<^item> \<open>ReservationCreee\<close>: "Reservation creee avec succes! En attente de validation.";
  \<^item> \<open>AucuneReservation\<close>: "Vous n'avez aucune reservation";
  \<^item> \<open>ReservationAnnulee\<close>: "Reservation annulee";
  \<^item> \<open>AccesNonAutorise\<close>: "Acces non autorise";
  \<^item> \<open>AucuneEnAttente\<close>: "Aucune reservation en attente de validation";
  \<^item> \<open>ReservationValidee\<close>: "Reservation validee";
  \<^item> \<open>ReservationRefusee\<close>: "Reservation refusee".
\<close>

datatype message =
  ErreurRequete | ErreurProcedure erreur | ImpossibleCharger | ObjetObligatoire
  | HeureFinInvalide | SalleNonDisponible | ReservationCreee | AucuneReservation
  | ReservationAnnulee | AccesNonAutorise | AucuneEnAttente | ReservationValidee
  | ReservationRefusee

section \<open>Python strings\<close>

text \<open>
  \<^verbatim>\<open>str.strip()\<close> without argument removes the leading and the trailing white space, and
  white space is what \<^verbatim>\<open>str.isspace\<close> accepts: U+0009 to U+000D, U+001C to U+0020, U+0085,
  U+00A0, U+1680, U+2000 to U+200A, U+2028, U+2029, U+202F, U+205F and U+3000.
\<close>

definition py_isspace :: "nat \<Rightarrow> bool" where
  "py_isspace c \<longleftrightarrow>
     (9 \<le> c \<and> c \<le> 13) \<or> (28 \<le> c \<and> c \<le> 32) \<or> c = 133 \<or> c = 160 \<or> c = 5760 \<or>
     (8192 \<le> c \<and> c \<le> 8202) \<or> c = 8232 \<or> c = 8233 \<or> c = 8239 \<or> c = 8287 \<or> c = 12288"

definition strip :: "pystr \<Rightarrow> pystr" where
  "strip s = rev (dropWhile py_isspace (rev (dropWhile py_isspace s)))"

definition py :: "string \<Rightarrow> pystr" where
  "py s = map of_char s"

text \<open>The role names of \<^verbatim>\<open>validation_page\<close> and the comment of its refusal button.\<close>

definition role_Manager :: pystr where
  "role_Manager = py ''Manager''"

definition role_Admin :: pystr where
  "role_Admin = py ''Admin''"

definition refusee_par_manager :: pystr where
  "refusee_par_manager = py ''Refus'' @ [233] @ py ''e par manager''"

section \<open>Access to the database\<close>

text \<open>
  What the storage does during one call of \<^verbatim>\<open>execute_query\<close> or \<^verbatim>\<open>execute_procedure\<close>:
  \<^item> \<open>ConnexionImpossible\<close>: \<^verbatim>\<open>pyodbc.connect\<close> raises inside \<^verbatim>\<open>init_connection\<close>, which
    is called before the \<^verbatim>\<open>try\<close>, so the exception leaves the function;
  \<^item> \<open>SansConnexion\<close>: \<^verbatim>\<open>init_connection\<close> returns \<^verbatim>\<open>None\<close>;
  \<^item> \<open>EchecRequete\<close>: \<^verbatim>\<open>pd.read_sql\<close>, \<^verbatim>\<open>cursor.execute\<close> or \<^verbatim>\<open>conn.commit\<close> raises for a
    reason of the infrastructure, inside the \<^verbatim>\<open>try\<close>;
  \<^item> \<open>Operationnel\<close>: the statement reaches the database and is evaluated there.
\<close>

datatype stockage = ConnexionImpossible | SansConnexion | EchecRequete | Operationnel

text \<open>
  \<^verbatim>\<open>execute_query\<close>: the second argument is the rows that the statement selects when it
  is evaluated; an empty list is the empty \<^verbatim>\<open>DataFrame\<close>. A raised exception is \<open>Inl\<close>;
  otherwise the messages shown and the frame returned.
\<close>

definition execute_query :: "stockage \<Rightarrow> 'row list \<Rightarrow> erreur + (message list \<times> 'row list)" where
  "execute_query s rows =
     (case s of
        ConnexionImpossible \<Rightarrow> Inl StorageUnavailable
      | SansConnexion \<Rightarrow> Inr ([], [])
      | EchecRequete \<Rightarrow> Inr ([ErreurRequete], [])
      | Operationnel \<Rightarrow> Inr ([], rows))"

section \<open>The scheduling rules held by the database\<close>

text \<open>
  Modelled from the spec: the overlap rule of section 3, \<open>start_a < end_b AND
  start_b < end_a\<close>; the source only calls the database function that applies it.
\<close>

definition Overlaps :: "pytime \<Rightarrow> pytime \<Rightarrow> pytime \<Rightarrow> pytime \<Rightarrow> bool" where
  "Overlaps start_a end_a start_b end_b \<longleftrightarrow> start_a < end_b \<and> start_b < end_a"

text \<open>
  Modelled from the spec: a reservation is active when it is Pending or Approved
  (section 3); the statuses are stored as \<^verbatim>\<open>'EnAttente'\<close> and \<^verbatim>\<open>'Validee'\<close>.
\<close>

definition active :: "reservation \<Rightarrow> bool" where
  "active r \<longleftrightarrow> Statut r = EnAttente \<or> Statut r = Validee"

text \<open>
  Modelled from the spec: the database function \<^verbatim>\<open>dbo.fn_SalleDisponible\<close>, which is not
  in the source. By section 4.2 it looks at the active reservations of the room on the
  date and answers false if one of them overlaps the interval, true otherwise.
\<close>

definition fn_SalleDisponible :: "database \<Rightarrow> int \<Rightarrow> pydate \<Rightarrow> pytime \<Rightarrow> pytime \<Rightarrow> bool" where
  "fn_SalleDisponible db salle_id date_res heure_debut heure_fin \<longleftrightarrow>
     list_all (\<lambda>r. \<not> (active r \<and> r_SalleID r = salle_id \<and> DateReservation r = date_res \<and>
                       Overlaps (HeureDebut r) (HeureFin r) heure_debut heure_fin))
       (Reservations db)"

text \<open>
  \<^verbatim>\<open>check_availability\<close>: one query with one row and one column, \<^verbatim>\<open>Disponible\<close>; the
  answer is false when the frame is empty.
\<close>

definition check_availability ::
  "stockage \<Rightarrow> database \<Rightarrow> int \<Rightarrow> pydate \<Rightarrow> pytime \<Rightarrow> pytime \<Rightarrow> erreur + (message list \<times> bool)" where
  "check_availability s db salle_id date_res heure_debut heure_fin =
     (case execute_query s [fn_SalleDisponible db salle_id date_res heure_debut heure_fin] of
        Inl e \<Rightarrow> Inl e
      | Inr (msgs, result) \<Rightarrow> Inr (msgs, if result \<noteq> [] then hd result else False))"

section \<open>The stored procedures\<close>

text \<open>
  The pages change the database only through three stored procedures, which are not in
  the source; each is modelled from the contract that the specification gives it. The
  clock is the one of the database server.
\<close>

record horloge =
  aujourdhui :: pydate
  maintenant :: pydatetime

text \<open>
  Modelled from the spec: \<open>IsValid\<close> of section 4.1, which is not in the source: end after
  start, both times within a single day, date not in the past.
\<close>

definition IsValid :: "pydate \<Rightarrow> pydate \<Rightarrow> pytime \<Rightarrow> pytime \<Rightarrow> bool" where
  "IsValid today date_res debut fin \<longleftrightarrow> debut < fin \<and> fin < 86400000000 \<and> today \<le> date_res"

text \<open>
  Modelled from the spec: the duration bound of section 4.5, step 3, which is not in the
  source: the duration \<open>end - start\<close> lies within \<open>[DureeMin, DureeMax]\<close>, both in minutes.
\<close>

definition duree_admise :: "type_evenement \<Rightarrow> pytime \<Rightarrow> pytime \<Rightarrow> bool" where
  "duree_admise t debut fin \<longleftrightarrow>
     DureeMin t * 60000000 \<le> fin - debut \<and> fin - debut \<le> DureeMax t * 60000000"

text \<open>The identity column: the next number after the largest one in use.\<close>

definition nouvel_identifiant :: "reservation list \<Rightarrow> int" where
  "nouvel_identifiant rs = fold max (map ReservationID rs) 0 + 1"

text \<open>
  Modelled from the spec: the procedure \<^verbatim>\<open>sp_ReserverSalle\<close>, which is not in the source,
  as \<open>CreateIfAvailable\<close> of section 4.3: \<open>NotFound\<close> if the room or the event type does not
  exist, \<open>InvalidInput\<close> if the candidate fails the interval or the duration validation,
  \<open>Conflict\<close> if the slot is not available, and otherwise the insertion of the candidate
  with the initial status Pending. The arguments are in the order of the source's
  \<^verbatim>\<open>params\<close>, without the last one (\<^verbatim>\<open>ReservationID\<close>, an output parameter).
\<close>

definition sp_ReserverSalle ::
  "horloge \<Rightarrow> int \<Rightarrow> int \<Rightarrow> int \<Rightarrow> pystr \<Rightarrow> pydate \<Rightarrow> pytime \<Rightarrow> pytime \<Rightarrow> database \<Rightarrow> erreur + database" where
  "sp_ReserverSalle h user_id salle_id type_id objet date_res debut fin db =
     (case find (\<lambda>s. SalleID s = salle_id) (Salles db) of
        None \<Rightarrow> Inl NotFound
      | Some s \<Rightarrow>
          (case find (\<lambda>t. TypeID t = type_id) (TypesEvenements db) of
             None \<Rightarrow> Inl NotFound
           | Some t \<Rightarrow>
               if \<not> IsValid (aujourdhui h) date_res debut fin \<or> \<not> duree_admise t debut fin
               then Inl InvalidInput
               else if \<not> fn_SalleDisponible db salle_id date_res debut fin then Inl Conflict
               else Inr (db\<lparr>Reservations := Reservations db @
                      [\<lparr>ReservationID = nouvel_identifiant (Reservations db),
                        r_UserID = user_id, r_SalleID = salle_id, r_TypeID = type_id,
                        ObjetReunion = objet, DateReservation = date_res,
                        HeureDebut = debut, HeureFin = fin, Statut = EnAttente,
                        DateCreation = maintenant h, Commentaires = None,
                        ManagerID = None\<rparr>]\<rparr>)))"

text \<open>
  Modelled from the spec: who may approve or reject (section 4.4): a user whose role is
  Manager or Admin. A procedure receives the identifier of the actor and reads the role
  in the table of the users.
\<close>

definition est_gestionnaire :: "database \<Rightarrow> int \<Rightarrow> bool" where
  "est_gestionnaire db user_id =
     (case find (\<lambda>u. UserID u = user_id) (Utilisateurs db) of
        None \<Rightarrow> False
      | Some u \<Rightarrow> Role u = role_Manager \<or> Role u = role_Admin)"

text \<open>
  Modelled from the spec: the procedure \<^verbatim>\<open>sp_ValiderReservation\<close>, which is not in the
  source, as the action Approve of section 4.4 with the error precedence given there
  (role, then existence, then the transition table): only a Pending reservation becomes
  Approved, and the write checks that the status is still Pending (section 5).
\<close>

definition sp_ValiderReservation :: "int \<Rightarrow> int \<Rightarrow> pystr option \<Rightarrow> database \<Rightarrow> erreur + database" where
  "sp_ValiderReservation manager_id reservation_id commentaires db =
     (if \<not> est_gestionnaire db manager_id then Inl Forbidden
      else case find (\<lambda>r. ReservationID r = reservation_id) (Reservations db) of
        None \<Rightarrow> Inl NotFound
      | Some r \<Rightarrow>
          if Statut r \<noteq> EnAttente then Inl IllegalTransition
          else Inr (db\<lparr>Reservations :=
                 map (\<lambda>x. if ReservationID x = reservation_id \<and> Statut x = EnAttente
                          then x\<lparr>Statut := Validee, Commentaires := commentaires,
                                 ManagerID := Some manager_id\<rparr>
                          else x) (Reservations db)\<rparr>))"

text \<open>
  Modelled from the spec: the procedure \<^verbatim>\<open>sp_AnnulerReservation\<close>, which is not in the
  source, as the action Cancel of section 4.4: allowed to the requester and to a Manager
  or Admin, from Pending or Approved only, to Cancelled. The comment is \<open>None\<close> when the
  procedure is called with two arguments.
\<close>

definition sp_AnnulerReservation :: "int \<Rightarrow> int \<Rightarrow> pystr option \<Rightarrow> database \<Rightarrow> erreur + database" where
  "sp_AnnulerReservation user_id reservation_id commentaires db =
     (case find (\<lambda>r. ReservationID r = reservation_id) (Reservations db) of
        None \<Rightarrow> if est_gestionnaire db user_id then Inl NotFound else Inl Forbidden
      | Some r \<Rightarrow>
          if \<not> (est_gestionnaire db user_id \<or> r_UserID r = user_id) then Inl Forbidden
          else if \<not> active r then Inl IllegalTransition
          else Inr (db\<lparr>Reservations :=
                 map (\<lambda>x. if ReservationID x = reservation_id \<and> active x
                          then x\<lparr>Statut := Annulee,
                                 Commentaires := (case commentaires of
                                                    None \<Rightarrow> Commentaires x
                                                  | Some c \<Rightarrow> Some c)\<rparr>
                          else x) (Reservations db)\<rparr>))"

text \<open>
  The statement \<^verbatim>\<open>EXEC proc ?, ?, ...\<close> that \<^verbatim>\<open>execute_procedure\<close> builds: the name of
  the procedure and the values of \<^verbatim>\<open>params\<close> in their order.
\<close>

datatype appel =
  Sp_ReserverSalle int int int pystr pydate pytime pytime int
  | Sp_AnnulerReservation int int "pystr option"
  | Sp_ValiderReservation int int "pystr option"

fun exec_sql :: "horloge \<Rightarrow> appel \<Rightarrow> database \<Rightarrow> erreur + database" where
  "exec_sql h (Sp_ReserverSalle u s t objet d debut fin rid) db =
     sp_ReserverSalle h u s t objet d debut fin db"
| "exec_sql h (Sp_AnnulerReservation u rid c) db = sp_AnnulerReservation u rid c db"
| "exec_sql h (Sp_ValiderReservation m rid c) db = sp_ValiderReservation m rid c db"

text \<open>
  \<^verbatim>\<open>execute_procedure\<close>: true after \<^verbatim>\<open>conn.commit()\<close>, false with a message when the
  statement raises, false without message when there is no connection.
\<close>

definition execute_procedure ::
  "stockage \<Rightarrow> horloge \<Rightarrow> appel \<Rightarrow> database \<Rightarrow> erreur + (message list \<times> bool \<times> database)" where
  "execute_procedure s h a db =
     (case s of
        ConnexionImpossible \<Rightarrow> Inl StorageUnavailable
      | SansConnexion \<Rightarrow> Inr ([], False, db)
      | EchecRequete \<Rightarrow> Inr ([ErreurProcedure StorageUnavailable], False, db)
      | Operationnel \<Rightarrow>
          (case exec_sql h a db of
             Inl e \<Rightarrow> Inr ([ErreurProcedure e], False, db)
           | Inr db' \<Rightarrow> Inr ([], True, db')))"

section \<open>The queries\<close>

text \<open>
  The rows of \<^verbatim>\<open>get_reservations_user\<close> and of \<^verbatim>\<open>get_reservations_pending\<close>: the columns
  of their \<^verbatim>\<open>SELECT\<close>.
\<close>

record ligne_user =
  lu_ReservationID :: int
  lu_NomSalle :: pystr
  lu_ObjetReunion :: pystr
  lu_DateReservation :: pydate
  lu_HeureDebut :: pytime
  lu_HeureFin :: pytime
  lu_Statut :: statut
  lu_NomType :: pystr

record ligne_pending =
  lp_ReservationID :: int
  lp_Demandeur :: pystr
  lp_NomSalle :: pystr
  lp_ObjetReunion :: pystr
  lp_DateReservation :: pydate
  lp_HeureDebut :: pytime
  lp_HeureFin :: pytime
  lp_NomType :: pystr
  lp_DateCreation :: pydatetime

text \<open>
  The statement of \<^verbatim>\<open>get_reservations_user\<close>: the reservations of the user, joined to
  their room and their event type, latest date first and latest start first.
\<close>

definition requete_reservations_user :: "database \<Rightarrow> int \<Rightarrow> ligne_user list" where
  "requete_reservations_user db user_id =
     sort_key (\<lambda>l. - lu_DateReservation l)
       (sort_key (\<lambda>l. - int (lu_HeureDebut l))
          (concat (map (\<lambda>r.
             concat (map (\<lambda>s.
               map (\<lambda>te.
                 \<lparr>lu_ReservationID = ReservationID r, lu_NomSalle = NomSalle s,
                  lu_ObjetReunion = ObjetReunion r, lu_DateReservation = DateReservation r,
                  lu_HeureDebut = HeureDebut r, lu_HeureFin = HeureFin r,
                  lu_Statut = Statut r, lu_NomType = NomType te\<rparr>)
                 (filter (\<lambda>te. r_TypeID r = TypeID te) (TypesEvenements db)))
               (filter (\<lambda>s. r_SalleID r = SalleID s) (Salles db))))
             (filter (\<lambda>r. r_UserID r = user_id) (Reservations db)))))"

definition get_reservations_user ::
  "stockage \<Rightarrow> database \<Rightarrow> int \<Rightarrow> erreur + (message list \<times> ligne_user list)" where
  "get_reservations_user s db user_id = execute_query s (requete_reservations_user db user_id)"

text \<open>
  The statement of \<^verbatim>\<open>get_reservations_pending\<close>: the reservations whose status is
  \<^verbatim>\<open>'EnAttente'\<close>, joined to their user, their room and their event type, in ascending
  order of \<^verbatim>\<open>DateCreation\<close>.
\<close>

definition ligne_de :: "reservation \<Rightarrow> utilisateur \<Rightarrow> salle \<Rightarrow> type_evenement \<Rightarrow> ligne_pending" where
  "ligne_de r u s te =
     \<lparr>lp_ReservationID = ReservationID r, lp_Demandeur = Nom u @ [32] @ Prenom u,
      lp_NomSalle = NomSalle s, lp_ObjetReunion = ObjetReunion r,
      lp_DateReservation = DateReservation r, lp_HeureDebut = HeureDebut r,
      lp_HeureFin = HeureFin r, lp_NomType = NomType te, lp_DateCreation = DateCreation r\<rparr>"

definition jointure_pending :: "database \<Rightarrow> reservation \<Rightarrow> ligne_pending list" where
  "jointure_pending db r =
     concat (map (\<lambda>u.
       concat (map (\<lambda>s.
         map (\<lambda>te. ligne_de r u s te)
           (filter (\<lambda>te. r_TypeID r = TypeID te) (TypesEvenements db)))
         (filter (\<lambda>s. r_SalleID r = SalleID s) (Salles db))))
       (filter (\<lambda>u. r_UserID r = UserID u) (Utilisateurs db)))"

definition requete_reservations_pending :: "database \<Rightarrow> ligne_pending list" where
  "requete_reservations_pending db =
     sort_key lp_DateCreation
       (concat (map (jointure_pending db)
          (filter (\<lambda>r. Statut r = EnAttente) (Reservations db))))"

definition get_reservations_pending ::
  "stockage \<Rightarrow> database \<Rightarrow> erreur + (message list \<times> ligne_pending list)" where
  "get_reservations_pending s db = execute_query s (requete_reservations_pending db)"

text \<open>
  The statement of \<^verbatim>\<open>get_salles\<close>: the rooms whose column \<^verbatim>\<open>Disponible\<close> is 1, in the
  order of \<^verbatim>\<open>NomSalle\<close>. A row keeps the five selected columns of the room. The order of
  two names is taken here as the lexicographic order of their code points; in the
  database it is the collation of the column that decides. \<^verbatim>\<open>reservation_page\<close> uses the
  frame for its emptiness and for the options of a widget only.
\<close>

definition requete_salles :: "database \<Rightarrow> salle list" where
  "requete_salles db = sort_key NomSalle (filter Disponible (Salles db))"

definition get_salles :: "stockage \<Rightarrow> database \<Rightarrow> erreur + (message list \<times> salle list)" where
  "get_salles s db = execute_query s (requete_salles db)"

text \<open>
  The statement of \<^verbatim>\<open>get_types_evenements\<close>: all the event types, in the order of
  \<^verbatim>\<open>NomType\<close> (again the order of the code points).
\<close>

definition requete_types_evenements :: "database \<Rightarrow> type_evenement list" where
  "requete_types_evenements db = sort_key NomType (TypesEvenements db)"

definition get_types_evenements ::
  "stockage \<Rightarrow> database \<Rightarrow> erreur + (message list \<times> type_evenement list)" where
  "get_types_evenements s db = execute_query s (requete_types_evenements db)"

section \<open>The pages\<close>

text \<open>The values of the widgets of \<^verbatim>\<open>reservation_form\<close> when the form is submitted.\<close>

record formulaire =
  salle_selected :: int
  type_selected :: int
  date_reservation :: pydate
  heure_debut :: pytime
  heure_fin :: pytime
  objet_reunion :: pystr

text \<open>The dictionary \<^verbatim>\<open>params\<close> that \<^verbatim>\<open>reservation_page\<close> passes to \<^verbatim>\<open>sp_ReserverSalle\<close>.\<close>

definition params_reservation :: "utilisateur \<Rightarrow> formulaire \<Rightarrow> appel" where
  "params_reservation user f =
     Sp_ReserverSalle (UserID user) (salle_selected f) (type_selected f)
       (strip (objet_reunion f)) (date_reservation f) (heure_debut f) (heure_fin f) 0"

text \<open>
  \<^verbatim>\<open>reservation_page\<close> when the button of the form is pressed. The page first loads the
  rooms and the event types, and stops with a message when one of the two frames is
  empty; only then does it read the form. The four states of the storage are, in the
  order of the calls: \<open>s_salles\<close> during \<^verbatim>\<open>get_salles\<close>, \<open>s_types\<close> during
  \<^verbatim>\<open>get_types_evenements\<close>, \<open>s_dispo\<close> during the availability query and \<open>s_proc\<close> during
  the call of the procedure. The result is the messages shown and the database
  afterwards, or the exception that leaves the page. The widgets themselves are not
  modelled: \<open>f\<close> is any value of the form, also one that the two select boxes and the
  date input would not offer.
\<close>

definition reservation_page ::
  "stockage \<Rightarrow> stockage \<Rightarrow> stockage \<Rightarrow> stockage \<Rightarrow> horloge \<Rightarrow> database \<Rightarrow>
   utilisateur \<Rightarrow> formulaire \<Rightarrow> erreur + (message list \<times> database)" where
  "reservation_page s_salles s_types s_dispo s_proc h db user f =
     (case get_salles s_salles db of
        Inl e \<Rightarrow> Inl e
      | Inr (m_salles, salles) \<Rightarrow>
     (case get_types_evenements s_types db of
        Inl e \<Rightarrow> Inl e
      | Inr (m_types, types_evenements) \<Rightarrow>
          if salles = [] \<or> types_evenements = []
          then Inr (m_salles @ m_types @ [ImpossibleCharger], db)
          else if strip (objet_reunion f) = []
          then Inr (m_salles @ m_types @ [ObjetObligatoire], db)
          else if heure_fin f \<le> heure_debut f
          then Inr (m_salles @ m_types @ [HeureFinInvalide], db)
          else
            (case check_availability s_dispo db (salle_selected f) (date_reservation f)
                    (heure_debut f) (heure_fin f) of
               Inl e \<Rightarrow> Inl e
             | Inr (m1, disponible) \<Rightarrow>
                 if \<not> disponible
                 then Inr (m_salles @ m_types @ m1 @ [SalleNonDisponible], db)
                 else
                   (case execute_procedure s_proc h (params_reservation user f) db of
                      Inl e \<Rightarrow> Inl e
                    | Inr (m2, ok, db') \<Rightarrow>
                        Inr (m_salles @ m_types @ m1 @ m2 @
                             (if ok then [ReservationCreee] else []), db')))))"

text \<open>
  \<^verbatim>\<open>mes_reservations_page\<close> when the button \<^verbatim>\<open>Annuler\<close> of the reservation \<open>cible\<close> is
  pressed. \<open>statut_filter\<close> is \<open>None\<close> for \<^verbatim>\<open>'Tous'\<close>. The button exists only on a
  displayed row whose status is \<^verbatim>\<open>'EnAttente'\<close> or \<^verbatim>\<open>'Validee'\<close>; without it nothing happens.
\<close>

definition mes_reservations_page ::
  "stockage \<Rightarrow> stockage \<Rightarrow> horloge \<Rightarrow> database \<Rightarrow> utilisateur \<Rightarrow> statut option \<Rightarrow> int \<Rightarrow>
   erreur + (message list \<times> database)" where
  "mes_reservations_page s1 s2 h db user statut_filter cible =
     (case get_reservations_user s1 db (UserID user) of
        Inl e \<Rightarrow> Inl e
      | Inr (m1, reservations) \<Rightarrow>
          if reservations = [] then Inr (m1 @ [AucuneReservation], db)
          else
            let reservations_filtered =
                  (case statut_filter of
                     None \<Rightarrow> reservations
                   | Some st \<Rightarrow> filter (\<lambda>l. lu_Statut l = st) reservations)
            in if list_ex (\<lambda>l. lu_ReservationID l = cible \<and>
                               (lu_Statut l = EnAttente \<or> lu_Statut l = Validee))
                    reservations_filtered
               then
                 (case execute_procedure s2 h
                         (Sp_AnnulerReservation (UserID user) cible None) db of
                    Inl e \<Rightarrow> Inl e
                  | Inr (m2, ok, db') \<Rightarrow>
                      Inr (m1 @ m2 @ (if ok then [ReservationAnnulee] else []), db'))
               else Inr (m1, db))"

text \<open>The two buttons of a row of \<^verbatim>\<open>validation_page\<close>.\<close>

datatype bouton = Valider | Refuser

text \<open>
  \<^verbatim>\<open>validation_page\<close> when a button of the reservation \<open>cible\<close> is pressed, with the text
  \<open>commentaires\<close> in the comment area of that row. The rows are the pending
  reservations; a reservation that is not among them has no button.
\<close>

definition validation_page ::
  "stockage \<Rightarrow> stockage \<Rightarrow> horloge \<Rightarrow> database \<Rightarrow> utilisateur \<Rightarrow> bouton \<Rightarrow> int \<Rightarrow> pystr \<Rightarrow>
   erreur + (message list \<times> database)" where
  "validation_page s1 s2 h db user b cible commentaires =
     (if Role user \<noteq> role_Manager \<and> Role user \<noteq> role_Admin then Inr ([AccesNonAutorise], db)
      else
        (case get_reservations_pending s1 db of
           Inl e \<Rightarrow> Inl e
         | Inr (m1, reservations) \<Rightarrow>
             if reservations = [] then Inr (m1 @ [AucuneEnAttente], db)
             else if \<not> list_ex (\<lambda>l. lp_ReservationID l = cible) reservations
             then Inr (m1, db)
             else
               (case b of
                  Valider \<Rightarrow>
                    (case execute_procedure s2 h
                            (Sp_ValiderReservation (UserID user) cible
                               (if commentaires \<noteq> [] then Some commentaires else None)) db of
                       Inl e \<Rightarrow> Inl e
                     | Inr (m2, ok, db') \<Rightarrow>
                         Inr (m1 @ m2 @ (if ok then [ReservationValidee] else []), db'))
                | Refuser \<Rightarrow>
                    (case execute_procedure s2 h
                            (Sp_AnnulerReservation (UserID user) cible
                               (Some (if commentaires \<noteq> []
                                      then refusee_par_manager @ py '': '' @ commentaires
                                      else refusee_par_manager))) db of
                       Inl e \<Rightarrow> Inl e
                     | Inr (m2, ok, db') \<Rightarrow>
                         Inr (m1 @ m2 @ (if ok then [ReservationRefusee] else []), db')))))"

section \<open>Executions\<close>

text \<open>
  One interaction of a user with a page: a submitted reservation form, a pressed cancel
  button, or a pressed button of the validation page, each with the states of the
  storage during the calls that the page makes.
\<close>

datatype operation =
  Op_reservation stockage stockage stockage stockage horloge utilisateur formulaire
  | Op_mes_reservations stockage stockage horloge utilisateur "statut option" int
  | Op_validation stockage stockage horloge utilisateur bouton int pystr

fun page :: "operation \<Rightarrow> database \<Rightarrow> erreur + (message list \<times> database)" where
  "page (Op_reservation s_salles s_types s_dispo s_proc h user f) db =
     reservation_page s_salles s_types s_dispo s_proc h db user f"
| "page (Op_mes_reservations s1 s2 h user statut_filter cible) db =
     mes_reservations_page s1 s2 h db user statut_filter cible"
| "page (Op_validation s1 s2 h user b cible commentaires) db =
     validation_page s1 s2 h db user b cible commentaires"

text \<open>The database after an interaction; an exception that leaves the page changes nothing.\<close>

definition apres :: "operation \<Rightarrow> database \<Rightarrow> database" where
  "apres op db = (case page op db of Inl e \<Rightarrow> db | Inr (msgs, db') \<Rightarrow> db')"

fun executer :: "operation list \<Rightarrow> database \<Rightarrow> database" where
  "executer [] db = db"
| "executer (op # ops) db = executer ops (apres op db)"

text \<open>
  The messages with which a page reports, with \<^verbatim>\<open>st.success\<close>, that its call of a stored
  procedure has succeeded.
\<close>

definition succes :: "message \<Rightarrow> bool" where
  "succes m \<longleftrightarrow>
     m = ReservationCreee \<or> m = ReservationAnnulee \<or> m = ReservationValidee \<or>
     m = ReservationRefusee"

text \<open>
  No double booking: two active reservations at different positions of the table, on
  the same room and the same date, do not overlap.
\<close>

definition conflit :: "reservation \<Rightarrow> reservation \<Rightarrow> bool" where
  "conflit a b \<longleftrightarrow>
     active a \<and> active b \<and> r_SalleID a = r_SalleID b \<and> DateReservation a = DateReservation b \<and>
     Overlaps (HeureDebut a) (HeureFin a) (HeureDebut b) (HeureFin b)"

definition sans_double_reservation :: "database \<Rightarrow> bool" where
  "sans_double_reservation db \<longleftrightarrow> sorted_wrt (\<lambda>a b. \<not> conflit a b) (Reservations db)"

text \<open>
  What an update of the table by a status transition keeps: the room, the date and the
  interval of every reservation; no reservation becomes active; a reservation that is
  not active is left as it is.
\<close>

definition changement_statut :: "(reservation \<Rightarrow> reservation) \<Rightarrow> bool" where
  "changement_statut g \<longleftrightarrow>
     (\<forall>x. r_SalleID (g x) = r_SalleID x \<and> DateReservation (g x) = DateReservation x \<and>
          HeureDebut (g x) = HeureDebut x \<and> HeureFin (g x) = HeureFin x \<and>
          ReservationID (g x) = ReservationID x \<and>
          (active (g x) \<longrightarrow> active x) \<and> (\<not> active x \<longrightarrow> g x = x))"

text \<open>
  Referential integrity of the table of the reservations: each reservation has exactly
  one user, one room and one event type.
\<close>

definition integrite :: "database \<Rightarrow> bool" where
  "integrite db \<longleftrightarrow>
     list_all (\<lambda>r.
       length (filter (\<lambda>u. r_UserID r = UserID u) (Utilisateurs db)) = 1 \<and>
       length (filter (\<lambda>s. r_SalleID r = SalleID s) (Salles db)) = 1 \<and>
       length (filter (\<lambda>te. r_TypeID r = TypeID te) (TypesEvenements db)) = 1)
       (Reservations db)"

section \<open>Example data\<close>

text \<open>
  The scenario of section 8 of the specification: room R101, an employee, a manager, and
  requests on one day between 09:00 and 10:30.
\<close>

definition alice :: utilisateur where
  "alice = \<lparr>UserID = 1, Nom = py ''Martin'', Prenom = py ''Alice'', Email = py ''alice@example.com'',
            Role = py ''Employe'', Actif = True\<rparr>"

definition bob :: utilisateur where
  "bob = \<lparr>UserID = 2, Nom = py ''Durand'', Prenom = py ''Bob'', Email = py ''bob@example.com'',
          Role = py ''Manager'', Actif = True\<rparr>"

definition salle_R101 :: salle where
  "salle_R101 = \<lparr>SalleID = 101, NomSalle = py ''R101'', Capacite = 8, Equipements = py ''Ecran'',
                 Localisation = py ''Etage 1'', Disponible = True\<rparr>"

definition type_reunion :: type_evenement where
  "type_reunion = \<lparr>TypeID = 1, NomType = py ''Reunion'', Description = py ''Reunion'',
                   DureeMin = 30, DureeMax = 120\<rparr>"

definition base_vide :: database where
  "base_vide = \<lparr>Utilisateurs = [alice, bob], Salles = [salle_R101],
                TypesEvenements = [type_reunion], Reservations = []\<rparr>"

definition horloge_1 :: horloge where
  "horloge_1 = \<lparr>aujourdhui = 739038, maintenant = 1000\<rparr>"

definition horloge_2 :: horloge where
  "horloge_2 = \<lparr>aujourdhui = 739038, maintenant = 2000\<rparr>"

definition demande :: "pytime \<Rightarrow> pytime \<Rightarrow> pystr \<Rightarrow> formulaire" where
  "demande debut fin objet =
     \<lparr>salle_selected = 101, type_selected = 1, date_reservation = 739038,
      heure_debut = debut, heure_fin = fin, objet_reunion = objet\<rparr>"

definition t0900 :: pytime where "t0900 = 32400000000"
definition t0910 :: pytime where "t0910 = 33000000000"
definition t0930 :: pytime where "t0930 = 34200000000"
definition t1000 :: pytime where "t1000 = 36000000000"
definition t1030 :: pytime where "t1030 = 37800000000"

text \<open>
  The first request of the scenario as a row of the table, pending, and the same row
  after its cancellation by the requester.
\<close>

definition reservation_A :: reservation where
  "reservation_A =
     \<lparr>ReservationID = 1, r_UserID = 1, r_SalleID = 101, r_TypeID = 1,
      ObjetReunion = py ''Revue'', DateReservation = 739038, HeureDebut = t0900,
      HeureFin = t1000, Statut = EnAttente, DateCreation = 1000, Commentaires = None,
      ManagerID = None\<rparr>"

definition base_A :: database where
  "base_A = base_vide\<lparr>Reservations := [reservation_A]\<rparr>"



definition scenario :: "operation list" where
  "scenario =
     [Op_reservation Operationnel Operationnel Operationnel Operationnel horloge_1 alice
        (demande t0900 t1000 (py ''Revue'')),
      Op_reservation Operationnel Operationnel Operationnel Operationnel horloge_1 alice
        (demande t0930 t1030 (py ''Point'')),
      Op_validation Operationnel Operationnel horloge_1 bob Valider 1 [],
      Op_mes_reservations Operationnel Operationnel horloge_1 alice None 1,
      Op_reservation Operationnel Operationnel Operationnel Operationnel horloge_2 alice
        (demande t0900 t1000 (py ''Revue''))]"

section \<open>Properties of \<open>strip\<close>\<close>

lemma dropWhile_tous: "(\<forall>x\<in>set (dropWhile P xs). P x) \<longleftrightarrow> (\<forall>x\<in>set xs. P x)"
  by (induction xs) auto

lemma last_dropWhile: "dropWhile P xs \<noteq> [] \<Longrightarrow> last (dropWhile P xs) = last xs"
  by (induction xs) auto

lemma strip_vide_iff: "strip s = [] \<longleftrightarrow> list_all py_isspace s"
  by (simp add: strip_def list_all_iff dropWhile_eq_Nil_conv dropWhile_tous)

lemma strip_decomposition:
  "\<exists>a b. s = a @ strip s @ b \<and> list_all py_isspace a \<and> list_all py_isspace b"
proof -
  let ?t = "dropWhile py_isspace s"
  have 1: "s = takeWhile py_isspace s @ ?t" by simp
  have 3: "?t = strip s @ rev (takeWhile py_isspace (rev ?t))"
    unfolding strip_def by (metis rev_append rev_rev_ident takeWhile_dropWhile_id)
  have "s = takeWhile py_isspace s @ strip s @ rev (takeWhile py_isspace (rev ?t))"
    using 1 3 by metis
  moreover have "list_all py_isspace (takeWhile py_isspace s)"
    by (simp add: list_all_iff) (meson set_takeWhileD)
  moreover have "list_all py_isspace (rev (takeWhile py_isspace (rev ?t)))"
    unfolding list_all_iff set_rev by (meson set_takeWhileD)
  ultimately show ?thesis by blast
qed

lemma strip_bords:
  assumes "strip s \<noteq> []"
  shows "\<not> py_isspace (hd (strip s)) \<and> \<not> py_isspace (last (strip s))"
proof -
  let ?t = "dropWhile py_isspace s"
  let ?u = "dropWhile py_isspace (rev ?t)"
  have u: "?u \<noteq> []" using assms by (simp add: strip_def)
  have l: "\<not> py_isspace (hd ?u)" using u by (rule hd_dropWhile)
  have t: "?t \<noteq> []" using u by (cases "?t") simp_all
  have ht: "\<not> py_isspace (hd ?t)" using t by (rule hd_dropWhile)
  have "last (strip s) = hd ?u" using u by (simp add: strip_def last_rev)
  moreover have "hd (strip s) = hd ?t"
    using u t last_dropWhile [OF u] by (simp add: strip_def hd_rev last_rev)
  ultimately show ?thesis using l ht by simp
qed

section \<open>Validation of the form\<close>

text \<open>
  Claim C8, as stated, fails: \<^verbatim>\<open>reservation_page\<close> loads the rooms and the event types
  before it looks at the form. When the query of \<^verbatim>\<open>get_salles\<close> raises, a form submitted
  with an empty subject is answered with the message of \<^verbatim>\<open>execute_query\<close> and with
  "Impossible de charger les donnees", not with a message about the subject; and when
  the connection cannot be opened, the exception of \<^verbatim>\<open>init_connection\<close> leaves the page.
\<close>

theorem reservation_page_echec_chargement_counterexample:
  "reservation_page EchecRequete Operationnel Operationnel Operationnel horloge_1 base_vide alice
     (demande t0900 t1000 []) = Inr ([ErreurRequete, ImpossibleCharger], base_vide)
   \<and> reservation_page ConnexionImpossible Operationnel Operationnel Operationnel horloge_1
       base_vide alice (demande t0900 t1000 []) = Inl StorageUnavailable"
  by (simp add: reservation_page_def get_salles_def get_types_evenements_def execute_query_def)

text \<open>
  Claim C8, amended. Let the subject of a submitted form be empty once stripped, or let
  its end time be not strictly after its start time. Then:
  \<^item> the page shows the messages of the two loads followed by exactly one more message:
    "Impossible de charger les donnees" if a frame is empty, else "L'objet de la
    reunion est obligatoire" if the stripped subject is empty, else "L'heure de fin doit
    etre superieure a l'heure de debut" (the subject is tested before the interval); an
    exception of a load leaves the page;
  \<^item> in every case where the page returns, the database is unchanged and no message of
    success is shown: no reservation is created;
  \<^item> when both loads are evaluated by the database and select at least one row each,
    the page shows exactly one of the two messages of validation, the code's form of
    \<open>InvalidInput\<close>, without an availability query and without a call of the procedure.
\<close>

theorem reservation_page_saisie_refusee:
  assumes "strip (objet_reunion f) = [] \<or> heure_fin f \<le> heure_debut f"
  shows "reservation_page s_salles s_types s_dispo s_proc h db user f =
           (case get_salles s_salles db of
              Inl e \<Rightarrow> Inl e
            | Inr (m_salles, salles) \<Rightarrow>
           (case get_types_evenements s_types db of
              Inl e \<Rightarrow> Inl e
            | Inr (m_types, types_evenements) \<Rightarrow>
                Inr (m_salles @ m_types @
                     [if salles = [] \<or> types_evenements = [] then ImpossibleCharger
                      else if strip (objet_reunion f) = [] then ObjetObligatoire
                      else HeureFinInvalide], db)))
         \<and> (\<forall>msgs db'. reservation_page s_salles s_types s_dispo s_proc h db user f = Inr (msgs, db')
              \<longrightarrow> db' = db \<and> \<not> list_ex succes msgs)
         \<and> (s_salles = Operationnel \<and> s_types = Operationnel \<and>
            requete_salles db \<noteq> [] \<and> requete_types_evenements db \<noteq> [] \<longrightarrow>
              reservation_page s_salles s_types s_dispo s_proc h db user f =
                Inr ([if strip (objet_reunion f) = [] then ObjetObligatoire
                      else HeureFinInvalide], db))"
proof -
  have 1: "reservation_page s_salles s_types s_dispo s_proc h db user f =
           (case get_salles s_salles db of
              Inl e \<Rightarrow> Inl e
            | Inr (m_salles, salles) \<Rightarrow>
           (case get_types_evenements s_types db of
              Inl e \<Rightarrow> Inl e
            | Inr (m_types, types_evenements) \<Rightarrow>
                Inr (m_salles @ m_types @
                     [if salles = [] \<or> types_evenements = [] then ImpossibleCharger
                      else if strip (objet_reunion f) = [] then ObjetObligatoire
                      else HeureFinInvalide], db)))"
    using assms by (auto simp: reservation_page_def split: sum.splits)
  have 2: "\<forall>msgs db'. reservation_page s_salles s_types s_dispo s_proc h db user f = Inr (msgs, db')
              \<longrightarrow> db' = db \<and> \<not> list_ex succes msgs"
    unfolding 1 get_salles_def get_types_evenements_def
    by (cases s_salles; cases s_types)
       (simp_all add: execute_query_def succes_def)
  have 3: "s_salles = Operationnel \<and> s_types = Operationnel \<and>
            requete_salles db \<noteq> [] \<and> requete_types_evenements db \<noteq> [] \<longrightarrow>
              reservation_page s_salles s_types s_dispo s_proc h db user f =
                Inr ([if strip (objet_reunion f) = [] then ObjetObligatoire
                      else HeureFinInvalide], db)"
    unfolding 1 by (simp add: get_salles_def get_types_evenements_def execute_query_def)
  from 1 2 3 show ?thesis by blast
qed

theorem reservation_page_saisie_refusee_witness:
  "reservation_page Operationnel Operationnel Operationnel Operationnel horloge_1 base_vide
     alice (demande t1000 t0900 []) = Inr ([ObjetObligatoire], base_vide)
   \<and> reservation_page Operationnel Operationnel Operationnel Operationnel horloge_1 base_vide
     alice (demande t1000 t1000 (py ''Revue'')) = Inr ([HeureFinInvalide], base_vide)"
proof -
  have c: "strip (objet_reunion (demande t1000 t0900 [])) = [] \<or>
           heure_fin (demande t1000 t0900 []) \<le> heure_debut (demande t1000 t0900 [])"
    by (simp add: demande_def strip_def)
  have d: "strip (objet_reunion (demande t1000 t1000 (py ''Revue''))) = [] \<or>
           heure_fin (demande t1000 t1000 (py ''Revue'')) \<le> heure_debut (demande t1000 t1000 (py ''Revue''))"
    by (simp add: demande_def)
  have e: "strip (objet_reunion (demande t1000 t1000 (py ''Revue''))) \<noteq> []"
    by (simp add: demande_def strip_def py_def py_isspace_def)
  have s: "requete_salles base_vide \<noteq> []" and t: "requete_types_evenements base_vide \<noteq> []"
    by (simp_all add: requete_salles_def requete_types_evenements_def base_vide_def salle_R101_def)
  have f: "strip (objet_reunion (demande t1000 t0900 [])) = []"
    by (simp add: demande_def strip_def)
  have A: "reservation_page Operationnel Operationnel Operationnel Operationnel horloge_1 base_vide
             alice (demande t1000 t0900 []) =
           Inr ([if strip (objet_reunion (demande t1000 t0900 [])) = [] then ObjetObligatoire
                 else HeureFinInvalide], base_vide)"
    using reservation_page_saisie_refusee [OF c, of Operationnel Operationnel Operationnel
        Operationnel horloge_1 base_vide alice] s t by blast
  have B: "reservation_page Operationnel Operationnel Operationnel Operationnel horloge_1 base_vide
             alice (demande t1000 t1000 (py ''Revue'')) =
           Inr ([if strip (objet_reunion (demande t1000 t1000 (py ''Revue''))) = []
                 then ObjetObligatoire else HeureFinInvalide], base_vide)"
    using reservation_page_saisie_refusee [OF d, of Operationnel Operationnel Operationnel
        Operationnel horloge_1 base_vide alice] s t by blast
  show ?thesis using A B e f by simp
qed

section \<open>Authorization\<close>

text \<open>
  Claim C7. For a user whose role is neither Manager nor Admin, pressing the button
  Valider or Refuser of \<^verbatim>\<open>validation_page\<close> gives "Acces non autorise" (the code's form
  of \<open>Forbidden\<close>) and changes nothing, whatever the target reservation, its status, the
  content of the database and the state of the storage: the role is tested before the
  database is read.
\<close>

theorem validation_page_acces_refuse:
  assumes "Role user \<noteq> role_Manager" and "Role user \<noteq> role_Admin"
  shows "validation_page s1 s2 h db user b cible commentaires = Inr ([AccesNonAutorise], db)"
  using assms by (simp add: validation_page_def)

theorem validation_page_acces_refuse_witness:
  "validation_page ConnexionImpossible ConnexionImpossible horloge_1 base_vide alice Valider 7 []
     = Inr ([AccesNonAutorise], base_vide)
   \<and> validation_page Operationnel Operationnel horloge_1 base_vide alice Refuser 7 []
     = Inr ([AccesNonAutorise], base_vide)"
proof -
  have a: "Role alice \<noteq> role_Manager" and b: "Role alice \<noteq> role_Admin"
    by (simp_all add: alice_def role_Manager_def role_Admin_def py_def)
  show ?thesis
    using validation_page_acces_refuse [OF a b] by simp
qed

section \<open>Availability\<close>

text \<open>
  Claim C5, as stated, fails: when the query raises, \<^verbatim>\<open>execute_query\<close> shows a message
  and returns an empty frame, and \<^verbatim>\<open>check_availability\<close> returns \<open>False\<close>, the value that
  it returns for a busy room. Here the table of the reservations is empty, so no active
  reservation overlaps, and the answer is \<open>False\<close> all the same.
\<close>

theorem check_availability_echec_counterexample:
  "check_availability EchecRequete base_vide 101 739038 t0900 t1000 = Inr ([ErreurRequete], False)
   \<and> fn_SalleDisponible base_vide 101 739038 t0900 t1000"
  by (simp add: check_availability_def execute_query_def fn_SalleDisponible_def base_vide_def)

text \<open>
  Claim C5, amended. \<^verbatim>\<open>check_availability\<close> returns \<open>False\<close> when the query raises (after
  the message of \<^verbatim>\<open>execute_query\<close>) or when there is no connection; only a failure to
  open the connection leaves the function as an exception. It returns the answer of
  \<^verbatim>\<open>fn_SalleDisponible\<close> when the query succeeds, so \<open>True\<close> is never returned on a
  failure.
\<close>

theorem check_availability_resultat:
  "check_availability s db salle_id date_res debut fin =
     (case s of
        ConnexionImpossible \<Rightarrow> Inl StorageUnavailable
      | SansConnexion \<Rightarrow> Inr ([], False)
      | EchecRequete \<Rightarrow> Inr ([ErreurRequete], False)
      | Operationnel \<Rightarrow> Inr ([], fn_SalleDisponible db salle_id date_res debut fin))"
  by (cases s) (simp_all add: check_availability_def execute_query_def)

section \<open>What an interaction can do to the database\<close>

text \<open>
  A page that returns either leaves the database as it is and shows no message of
  success, or has made exactly one call of a stored procedure that succeeded, after all
  its own tests, and shows the message of success of that call alone.
\<close>

lemma execute_query_cases:
  assumes "execute_query s rows = Inr (m, r)"
  shows "\<not> list_ex succes m \<and> (r = [] \<or> (s = Operationnel \<and> m = [] \<and> r = rows))"
  using assms by (cases s) (auto simp: execute_query_def succes_def)

lemma check_availability_cases:
  assumes "check_availability s db a b c d = Inr (m, disp)"
  shows "\<not> list_ex succes m \<and>
         (disp \<longrightarrow> s = Operationnel \<and> m = [] \<and> fn_SalleDisponible db a b c d)"
  using assms by (cases s) (auto simp: check_availability_def execute_query_def succes_def)

lemma execute_procedure_cases:
  assumes "execute_procedure s h a db = Inr (msgs, ok, db')"
  shows "\<not> list_ex succes msgs \<and>
         ((\<not> ok \<and> db' = db) \<or>
          (ok \<and> msgs = [] \<and> s = Operationnel \<and> exec_sql h a db = Inr db'))"
  using assms
  by (auto simp: execute_procedure_def succes_def split: stockage.splits sum.splits)

lemma appel_effet:
  assumes "(case execute_procedure s h a db of
              Inl e \<Rightarrow> Inl e
            | Inr (m2, ok, db') \<Rightarrow> Inr (F m2 ok, db')) = Inr (msgs, db2)"
  shows "\<exists>m2 ok. msgs = F m2 ok \<and> \<not> list_ex succes m2 \<and>
           ((\<not> ok \<and> db2 = db) \<or>
            (ok \<and> m2 = [] \<and> s = Operationnel \<and> exec_sql h a db = Inr db2))"
proof (cases "execute_procedure s h a db")
  case (Inl e)
  then show ?thesis using assms by simp
next
  case (Inr q)
  obtain m2 ok db3 where q: "q = (m2, ok, db3)" by (cases q)
  have e: "execute_procedure s h a db = Inr (m2, ok, db3)" using Inr q by simp
  have "msgs = F m2 ok" and "db2 = db3" using assms e by simp_all
  then show ?thesis using execute_procedure_cases [OF e] by blast
qed

lemma reservation_page_cases:
  assumes "reservation_page sa sb s1 s2 h db user f = Inr (msgs, db')"
  shows "(db' = db \<and> \<not> list_ex succes msgs)
         \<or> (strip (objet_reunion f) \<noteq> [] \<and> heure_debut f < heure_fin f \<and>
            fn_SalleDisponible db (salle_selected f) (date_reservation f)
              (heure_debut f) (heure_fin f) \<and>
            exec_sql h (params_reservation user f) db = Inr db' \<and>
            msgs = [ReservationCreee])"
proof (cases "get_salles sa db")
  case (Inl e)
  then show ?thesis using assms by (simp add: reservation_page_def)
next
  case a: (Inr pa)
  obtain ma salles where pa: "pa = (ma, salles)" by (cases pa)
  have qa: "\<not> list_ex succes ma \<and> (salles = [] \<or> ma = [])"
    using a pa execute_query_cases [of sa "requete_salles db" ma salles]
    by (auto simp: get_salles_def)
  show ?thesis
  proof (cases "get_types_evenements sb db")
    case (Inl e)
    then show ?thesis using assms a pa by (simp add: reservation_page_def)
  next
    case b: (Inr pb)
    obtain mb types where pb: "pb = (mb, types)" by (cases pb)
    have qb: "\<not> list_ex succes mb \<and> (types = [] \<or> mb = [])"
      using b pb execute_query_cases [of sb "requete_types_evenements db" mb types]
      by (auto simp: get_types_evenements_def)
    show ?thesis
    proof (cases "salles = [] \<or> types = [] \<or> strip (objet_reunion f) = [] \<or>
                  heure_fin f \<le> heure_debut f")
      case True
      then show ?thesis using assms a pa b pb qa qb
        by (auto simp: reservation_page_def succes_def split: if_splits)
    next
      case garde: False
      have vides: "ma = []" "mb = []" using garde qa qb by auto
      show ?thesis
      proof (cases "check_availability s1 db (salle_selected f) (date_reservation f)
                      (heure_debut f) (heure_fin f)")
        case (Inl e)
        then show ?thesis using assms a pa b pb garde by (simp add: reservation_page_def)
      next
        case c: (Inr p)
        obtain m1 d where p: "p = (m1, d)" by (cases p)
        have qc: "\<not> list_ex succes m1 \<and>
                  (d \<longrightarrow> m1 = [] \<and> fn_SalleDisponible db (salle_selected f)
                     (date_reservation f) (heure_debut f) (heure_fin f))"
          using check_availability_cases c p by fastforce
        show ?thesis
        proof (cases d)
          case False
          then show ?thesis using assms a pa b pb garde c p qc vides
            by (auto simp: reservation_page_def succes_def)
        next
          case True
          then have "(case execute_procedure s2 h (params_reservation user f) db of
                        Inl e \<Rightarrow> Inl e
                      | Inr (m2, ok, db') \<Rightarrow>
                          Inr (ma @ mb @ m1 @ m2 @ (if ok then [ReservationCreee] else []), db'))
                     = Inr (msgs, db')"
            using assms a pa b pb garde c p by (simp add: reservation_page_def)
          from appel_effet [OF this] obtain m2 ok where
            m: "msgs = ma @ mb @ m1 @ m2 @ (if ok then [ReservationCreee] else [])"
            and n: "\<not> list_ex succes m2"
            and e: "(\<not> ok \<and> db' = db) \<or>
                    (ok \<and> m2 = [] \<and> s2 = Operationnel \<and>
                     exec_sql h (params_reservation user f) db = Inr db')"
            by blast
          from e show ?thesis
          proof
            assume "\<not> ok \<and> db' = db"
            then show ?thesis using m n qa qb qc by auto
          next
            assume "ok \<and> m2 = [] \<and> s2 = Operationnel \<and>
                    exec_sql h (params_reservation user f) db = Inr db'"
            then show ?thesis using m garde qc True vides by simp
          qed
        qed
      qed
    qed
  qed
qed


lemma mes_reservations_page_cases:
  assumes "mes_reservations_page s1 s2 h db user statut_filter cible = Inr (msgs, db')"
  shows "(db' = db \<and> \<not> list_ex succes msgs)
         \<or> ((\<exists>l\<in>set (requete_reservations_user db (UserID user)).
               lu_ReservationID l = cible \<and> (lu_Statut l = EnAttente \<or> lu_Statut l = Validee)) \<and>
            exec_sql h (Sp_AnnulerReservation (UserID user) cible None) db = Inr db' \<and>
            msgs = [ReservationAnnulee])"
proof (cases "get_reservations_user s1 db (UserID user)")
  case (Inl e)
  then show ?thesis using assms by (simp add: mes_reservations_page_def)
next
  case (Inr p)
  obtain m1 rows where p: "p = (m1, rows)" by (cases p)
  have q: "\<not> list_ex succes m1 \<and>
           (rows = [] \<or> (m1 = [] \<and> rows = requete_reservations_user db (UserID user)))"
    using Inr p execute_query_cases [of s1 "requete_reservations_user db (UserID user)" m1 rows]
    by (auto simp: get_reservations_user_def)
  let ?filtered = "case statut_filter of None \<Rightarrow> rows
                   | Some st \<Rightarrow> filter (\<lambda>l. lu_Statut l = st) rows"
  show ?thesis
  proof (cases "rows \<noteq> [] \<and> list_ex (\<lambda>l. lu_ReservationID l = cible \<and>
                  (lu_Statut l = EnAttente \<or> lu_Statut l = Validee)) ?filtered")
    case False
    then show ?thesis using assms Inr p q
      by (auto simp: mes_reservations_page_def Let_def succes_def split: if_splits)
  next
    case True
    then have "(case execute_procedure s2 h (Sp_AnnulerReservation (UserID user) cible None) db of
              Inl e \<Rightarrow> Inl e
            | Inr (m2, ok, db') \<Rightarrow> Inr (m1 @ m2 @ (if ok then [ReservationAnnulee] else []), db'))
            = Inr (msgs, db')"
      using assms Inr p by (simp add: mes_reservations_page_def Let_def)
    from appel_effet [OF this] obtain m2 ok where
      m: "msgs = m1 @ m2 @ (if ok then [ReservationAnnulee] else [])"
      and n: "\<not> list_ex succes m2"
      and e: "(\<not> ok \<and> db' = db) \<or>
              (ok \<and> m2 = [] \<and> s2 = Operationnel \<and>
               exec_sql h (Sp_AnnulerReservation (UserID user) cible None) db = Inr db')"
      by blast
    have r: "m1 = []" and r2: "rows = requete_reservations_user db (UserID user)"
      using True q by auto
    have ex: "\<exists>l\<in>set (requete_reservations_user db (UserID user)).
               lu_ReservationID l = cible \<and> (lu_Statut l = EnAttente \<or> lu_Statut l = Validee)"
      using True r2 by (cases statut_filter) (auto simp: list_ex_iff)
    from e show ?thesis
    proof
      assume "\<not> ok \<and> db' = db"
      then show ?thesis using m n q by auto
    next
      assume "ok \<and> m2 = [] \<and> s2 = Operationnel \<and>
              exec_sql h (Sp_AnnulerReservation (UserID user) cible None) db = Inr db'"
      then show ?thesis using m r ex by simp
    qed
  qed
qed

lemma validation_page_cases:
  assumes "validation_page s1 s2 h db user b cible commentaires = Inr (msgs, db')"
  shows "(db' = db \<and> \<not> list_ex succes msgs)
         \<or> ((Role user = role_Manager \<or> Role user = role_Admin) \<and>
            (\<exists>l\<in>set (requete_reservations_pending db). lp_ReservationID l = cible) \<and>
            exec_sql h
              (case b of
                 Valider \<Rightarrow> Sp_ValiderReservation (UserID user) cible
                              (if commentaires \<noteq> [] then Some commentaires else None)
               | Refuser \<Rightarrow> Sp_AnnulerReservation (UserID user) cible
                              (Some (if commentaires \<noteq> []
                                     then refusee_par_manager @ py '': '' @ commentaires
                                     else refusee_par_manager))) db = Inr db' \<and>
            msgs = [case b of Valider \<Rightarrow> ReservationValidee | Refuser \<Rightarrow> ReservationRefusee])"
proof (cases "Role user \<noteq> role_Manager \<and> Role user \<noteq> role_Admin")
  case True
  then show ?thesis using assms by (auto simp: validation_page_def succes_def)
next
  case role: False
  show ?thesis
  proof (cases "get_reservations_pending s1 db")
    case (Inl e)
    then show ?thesis using assms role by (simp add: validation_page_def)
  next
    case (Inr p)
    obtain m1 rows where p: "p = (m1, rows)" by (cases p)
    have q: "\<not> list_ex succes m1 \<and>
             (rows = [] \<or> (m1 = [] \<and> rows = requete_reservations_pending db))"
      using Inr p execute_query_cases [of s1 "requete_reservations_pending db" m1 rows]
      by (auto simp: get_reservations_pending_def)
    show ?thesis
    proof (cases "rows \<noteq> [] \<and> list_ex (\<lambda>l. lp_ReservationID l = cible) rows")
      case False
      then show ?thesis using assms role Inr p q
        by (auto simp: validation_page_def succes_def split: if_splits)
    next
      case True
      have r: "m1 = []" and r2: "rows = requete_reservations_pending db"
        using True q by auto
      have ex: "\<exists>l\<in>set (requete_reservations_pending db). lp_ReservationID l = cible"
        using True r2 by (auto simp: list_ex_iff)
      show ?thesis
      proof (cases b)
        case Valider
        then have "(case execute_procedure s2 h
                            (Sp_ValiderReservation (UserID user) cible
                               (if commentaires \<noteq> [] then Some commentaires else None)) db of
              Inl e \<Rightarrow> Inl e
            | Inr (m2, ok, db') \<Rightarrow> Inr (m1 @ m2 @ (if ok then [ReservationValidee] else []), db'))
            = Inr (msgs, db')"
          using assms role Inr p True by (simp add: validation_page_def)
        from appel_effet [OF this] obtain m2 ok where
          m: "msgs = m1 @ m2 @ (if ok then [ReservationValidee] else [])"
          and n: "\<not> list_ex succes m2"
          and e: "(\<not> ok \<and> db' = db) \<or>
                  (ok \<and> m2 = [] \<and> s2 = Operationnel \<and>
                   exec_sql h (Sp_ValiderReservation (UserID user) cible
                               (if commentaires \<noteq> [] then Some commentaires else None)) db
                     = Inr db')"
          by blast
        from e show ?thesis
        proof
          assume "\<not> ok \<and> db' = db"
          then show ?thesis using m n q by auto
        next
          assume "ok \<and> m2 = [] \<and> s2 = Operationnel \<and>
                   exec_sql h (Sp_ValiderReservation (UserID user) cible
                               (if commentaires \<noteq> [] then Some commentaires else None)) db
                     = Inr db'"
          then show ?thesis using m r ex role Valider by simp
        qed
      next
        case Refuser
        then have "(case execute_procedure s2 h
                            (Sp_AnnulerReservation (UserID user) cible
                               (Some (if commentaires \<noteq> []
                                      then refusee_par_manager @ py '': '' @ commentaires
                                      else refusee_par_manager))) db of
              Inl e \<Rightarrow> Inl e
            | Inr (m2, ok, db') \<Rightarrow> Inr (m1 @ m2 @ (if ok then [ReservationRefusee] else []), db'))
            = Inr (msgs, db')"
          using assms role Inr p True by (simp add: validation_page_def)
        from appel_effet [OF this] obtain m2 ok where
          m: "msgs = m1 @ m2 @ (if ok then [ReservationRefusee] else [])"
          and n: "\<not> list_ex succes m2"
          and e: "(\<not> ok \<and> db' = db) \<or>
                  (ok \<and> m2 = [] \<and> s2 = Operationnel \<and>
                   exec_sql h (Sp_AnnulerReservation (UserID user) cible
                               (Some (if commentaires \<noteq> []
                                      then refusee_par_manager @ py '': '' @ commentaires
                                      else refusee_par_manager))) db
                     = Inr db')"
          by blast
        from e show ?thesis
        proof
          assume "\<not> ok \<and> db' = db"
          then show ?thesis using m n q by auto
        next
          assume "ok \<and> m2 = [] \<and> s2 = Operationnel \<and>
                   exec_sql h (Sp_AnnulerReservation (UserID user) cible
                               (Some (if commentaires \<noteq> []
                                      then refusee_par_manager @ py '': '' @ commentaires
                                      else refusee_par_manager))) db
                     = Inr db'"
          then show ?thesis using m r ex role Refuser by simp
        qed
      qed
    qed
  qed
qed

lemma page_cases:
  assumes "page op db = Inr (msgs, db')"
  shows "db' = db \<or> (\<exists>h a. exec_sql h a db = Inr db')"
proof (cases op)
  case (Op_reservation sa sb s1 s2 h user f)
  then have "reservation_page sa sb s1 s2 h db user f = Inr (msgs, db')" using assms by simp
  from reservation_page_cases [OF this] show ?thesis by blast
next
  case (Op_mes_reservations s1 s2 h user statut_filter cible)
  then have "mes_reservations_page s1 s2 h db user statut_filter cible = Inr (msgs, db')"
    using assms by simp
  from mes_reservations_page_cases [OF this] show ?thesis by blast
next
  case (Op_validation s1 s2 h user b cible commentaires)
  then have "validation_page s1 s2 h db user b cible commentaires = Inr (msgs, db')"
    using assms by simp
  from validation_page_cases [OF this] show ?thesis by blast
qed

lemma apres_cases: "apres op db = db \<or> (\<exists>h a. exec_sql h a db = Inr (apres op db))"
proof (cases "page op db")
  case (Inl e)
  then show ?thesis by (simp add: apres_def)
next
  case (Inr p)
  obtain msgs db' where p: "p = (msgs, db')" by (cases p)
  from page_cases [of op db msgs db'] Inr p show ?thesis by (auto simp: apres_def)
qed


section \<open>What a stored procedure can do to the table of the reservations\<close>

lemma sp_ReserverSalle_effet:
  assumes "sp_ReserverSalle h u s t objet d debut fin db = Inr db'"
  shows "\<exists>r. Reservations db' = Reservations db @ [r] \<and> Statut r = EnAttente \<and>
             ObjetReunion r = objet \<and> (\<forall>x\<in>set (Reservations db). \<not> conflit x r)"
  using assms
  by (auto simp: sp_ReserverSalle_def fn_SalleDisponible_def list_all_iff conflit_def
      split: option.splits if_splits)

lemma sp_AnnulerReservation_effet:
  assumes "sp_AnnulerReservation u rid c db = Inr db'"
  shows "Reservations db' =
           map (\<lambda>x. if ReservationID x = rid \<and> active x
                    then x\<lparr>Statut := Annulee,
                           Commentaires := (case c of None \<Rightarrow> Commentaires x | Some c \<Rightarrow> Some c)\<rparr>
                    else x) (Reservations db)"
  using assms by (auto simp: sp_AnnulerReservation_def split: option.splits if_splits)

lemma sp_ValiderReservation_effet:
  assumes "sp_ValiderReservation m rid c db = Inr db'"
  shows "Reservations db' =
           map (\<lambda>x. if ReservationID x = rid \<and> Statut x = EnAttente
                    then x\<lparr>Statut := Validee, Commentaires := c, ManagerID := Some m\<rparr>
                    else x) (Reservations db)"
  using assms by (auto simp: sp_ValiderReservation_def split: option.splits if_splits)

lemma exec_sql_cases:
  assumes "exec_sql h a db = Inr db'"
  shows "(\<exists>r. Reservations db' = Reservations db @ [r] \<and> Statut r = EnAttente \<and>
              (\<forall>x\<in>set (Reservations db). \<not> conflit x r))
         \<or> (\<exists>g. Reservations db' = map g (Reservations db) \<and> changement_statut g)"
proof (cases a)
  case (Sp_ReserverSalle u s t objet d debut fin rid)
  then show ?thesis using assms sp_ReserverSalle_effet [of h u s t objet d debut fin db db']
    by auto
next
  case (Sp_AnnulerReservation u rid c)
  let ?g = "\<lambda>x. if ReservationID x = rid \<and> active x
                 then x\<lparr>Statut := Annulee,
                        Commentaires := (case c of None \<Rightarrow> Commentaires x | Some c \<Rightarrow> Some c)\<rparr>
                 else x"
  have "Reservations db' = map ?g (Reservations db)"
    using assms Sp_AnnulerReservation sp_AnnulerReservation_effet by simp
  moreover have "changement_statut ?g"
    by (simp add: changement_statut_def active_def)
  ultimately show ?thesis by blast
next
  case (Sp_ValiderReservation m rid c)
  let ?g = "\<lambda>x. if ReservationID x = rid \<and> Statut x = EnAttente
                 then x\<lparr>Statut := Validee, Commentaires := c, ManagerID := Some m\<rparr>
                 else x"
  have "Reservations db' = map ?g (Reservations db)"
    using assms Sp_ValiderReservation sp_ValiderReservation_effet by simp
  moreover have "changement_statut ?g"
    by (simp add: changement_statut_def active_def)
  ultimately show ?thesis by blast
qed

section \<open>No double booking\<close>

lemma changement_conflit:
  assumes "changement_statut g" and "conflit (g x) (g y)"
  shows "conflit x y"
  using assms unfolding changement_statut_def conflit_def by metis

lemma exec_sql_sans_double_reservation:
  assumes "exec_sql h a db = Inr db'" and "sans_double_reservation db"
  shows "sans_double_reservation db'"
  using exec_sql_cases [OF assms(1)]
proof (elim disjE exE conjE)
  fix r
  assume "Reservations db' = Reservations db @ [r]"
    and "\<forall>x\<in>set (Reservations db). \<not> conflit x r"
  then show ?thesis using assms(2)
    by (simp add: sans_double_reservation_def sorted_wrt_append)
next
  fix g
  assume g: "Reservations db' = map g (Reservations db)" and c: "changement_statut g"
  have "sorted_wrt (\<lambda>a b. \<not> conflit (g a) (g b)) (Reservations db)"
  proof (rule sorted_wrt_mono_rel)
    show "sorted_wrt (\<lambda>a b. \<not> conflit a b) (Reservations db)"
      using assms(2) by (simp add: sans_double_reservation_def)
  next
    fix x y
    assume "\<not> conflit x y"
    then show "\<not> conflit (g x) (g y)" using changement_conflit [OF c] by blast
  qed
  then show ?thesis by (simp add: sans_double_reservation_def g sorted_wrt_map)
qed

lemma apres_sans_double_reservation:
  assumes "sans_double_reservation db"
  shows "sans_double_reservation (apres op db)"
  using apres_cases [of op db]
proof
  assume "apres op db = db"
  then show ?thesis using assms by simp
next
  assume "\<exists>h a. exec_sql h a db = Inr (apres op db)"
  then obtain h a where "exec_sql h a db = Inr (apres op db)" by blast
  then show ?thesis using assms by (rule exec_sql_sans_double_reservation)
qed

lemma executer_invariant:
  "sans_double_reservation db \<Longrightarrow> sans_double_reservation (executer ops db)"
proof (induction ops arbitrary: db)
  case Nil
  then show ?case by simp
next
  case (Cons op ops)
  have "sans_double_reservation (apres op db)"
    using Cons.prems by (rule apres_sans_double_reservation)
  then have "sans_double_reservation (executer ops (apres op db))" by (rule Cons.IH)
  then show ?case by simp
qed

text \<open>
  Claim C1. Two reservations in conflict are two active reservations on the same room
  and the same date whose intervals overlap under the half-open rule. If no two rows at
  different positions of the table are in conflict, then this is still so after any
  sequence of interactions with the three pages (requests, approvals, refusals and
  cancellations, whatever the storage does during each of them), and after any single
  successful call of a stored procedure, at whatever moment other sessions make it; in
  particular it holds in every state reached from an empty table. The stored
  procedures are modelled from the specification: the insertion checks the availability
  again in the same step.
\<close>

theorem executer_sans_double_reservation:
  assumes "sans_double_reservation db"
  shows "sans_double_reservation (executer ops db)
         \<and> (\<forall>i j. i < j \<and> j < length (Reservations (executer ops db)) \<longrightarrow>
               \<not> conflit (Reservations (executer ops db) ! i) (Reservations (executer ops db) ! j))
         \<and> (\<forall>h a db'. exec_sql h a db = Inr db' \<longrightarrow> sans_double_reservation db')
         \<and> sans_double_reservation (executer ops (db\<lparr>Reservations := []\<rparr>))"
proof -
  have 1: "sans_double_reservation (executer ops db)"
    using assms by (rule executer_invariant)
  have 2: "\<forall>i j. i < j \<and> j < length (Reservations (executer ops db)) \<longrightarrow>
               \<not> conflit (Reservations (executer ops db) ! i) (Reservations (executer ops db) ! j)"
    using 1 by (simp add: sans_double_reservation_def sorted_wrt_iff_nth_less)
  have 3: "\<forall>h a db'. exec_sql h a db = Inr db' \<longrightarrow> sans_double_reservation db'"
    using assms exec_sql_sans_double_reservation by blast
  have "sans_double_reservation (db\<lparr>Reservations := []\<rparr>)"
    by (simp add: sans_double_reservation_def)
  then have 4: "sans_double_reservation (executer ops (db\<lparr>Reservations := []\<rparr>))"
    by (rule executer_invariant)
  from 1 2 3 4 show ?thesis by blast
qed

theorem executer_sans_double_reservation_witness:
  "sans_double_reservation base_A \<and> sans_double_reservation (executer scenario base_A)
   \<and> sans_double_reservation (executer scenario base_vide)"
proof -
  have a: "sans_double_reservation base_A"
    by (simp add: sans_double_reservation_def base_A_def)
  have b: "base_A\<lparr>Reservations := []\<rparr> = base_vide"
    by (simp add: base_A_def base_vide_def)
  show ?thesis
    using executer_sans_double_reservation [OF a, of scenario] a b by simp
qed

section \<open>Terminal states\<close>













section \<open>Refusal\<close>





section \<open>Duration bounds\<close>

text \<open>
  Claim C4, as stated, fails for the error: \<^verbatim>\<open>reservation_page\<close> never reads the columns
  \<^verbatim>\<open>DureeMin\<close> and \<^verbatim>\<open>DureeMax\<close> of the event types that it has loaded; it asks for the
  availability of the room first and leaves the duration to \<^verbatim>\<open>sp_ReserverSalle\<close>. A
  request of ten minutes for an event type whose minimum is thirty is answered with
  "La salle n'est pas disponible pour ce creneau" when the slot is taken, and also when
  the slot is free but the availability query raises.
\<close>

theorem reservation_page_duree_counterexample:
  "TypesEvenements base_A = [type_reunion] \<and> TypesEvenements base_vide = [type_reunion]
   \<and> type_selected (demande t0900 t0910 (py ''Point'')) = TypeID type_reunion
   \<and> \<not> duree_admise type_reunion t0900 t0910
   \<and> reservation_page Operationnel Operationnel Operationnel Operationnel horloge_1 base_A
       alice (demande t0900 t0910 (py ''Point'')) = Inr ([SalleNonDisponible], base_A)
   \<and> reservation_page Operationnel Operationnel EchecRequete Operationnel horloge_1 base_vide
       alice (demande t0900 t0910 (py ''Point'')) =
       Inr ([ErreurRequete, SalleNonDisponible], base_vide)"
proof -
  have 0: "strip (py ''Point'') \<noteq> []"
    by (simp add: strip_def py_def py_isspace_def)
  have 1: "TypesEvenements base_A = [type_reunion] \<and> TypesEvenements base_vide = [type_reunion]
           \<and> type_selected (demande t0900 t0910 (py ''Point'')) = TypeID type_reunion"
    by (simp add: demande_def base_A_def base_vide_def type_reunion_def)
  have 2: "\<not> duree_admise type_reunion t0900 t0910"
    by (simp add: duree_admise_def type_reunion_def t0900_def t0910_def)
  have 3: "\<not> fn_SalleDisponible base_A 101 739038 t0900 t0910"
    by (simp add: fn_SalleDisponible_def base_A_def reservation_A_def active_def Overlaps_def
        t0900_def t0910_def t1000_def)
  have 4: "requete_salles base_A = [salle_R101] \<and> requete_salles base_vide = [salle_R101] \<and>
           requete_types_evenements base_A = [type_reunion] \<and>
           requete_types_evenements base_vide = [type_reunion]"
    by (simp add: requete_salles_def requete_types_evenements_def base_A_def base_vide_def
        salle_R101_def)
  have 5: "reservation_page Operationnel Operationnel Operationnel Operationnel horloge_1 base_A
             alice (demande t0900 t0910 (py ''Point'')) = Inr ([SalleNonDisponible], base_A)"
    using 0 3 4
    by (simp add: reservation_page_def get_salles_def get_types_evenements_def
        check_availability_def execute_query_def demande_def t0900_def t0910_def)
  have 6: "reservation_page Operationnel Operationnel EchecRequete Operationnel horloge_1
             base_vide alice (demande t0900 t0910 (py ''Point'')) =
           Inr ([ErreurRequete, SalleNonDisponible], base_vide)"
    using 0 4
    by (simp add: reservation_page_def get_salles_def get_types_evenements_def
        check_availability_def execute_query_def demande_def t0900_def t0910_def)
  from 1 2 5 6 show ?thesis by blast
qed

text \<open>
  Claim C4, amended. Let the event type of a submitted form exist, and let the duration
  of the form be below its \<^verbatim>\<open>DureeMin\<close> or above its \<^verbatim>\<open>DureeMax\<close>. Then no reservation is
  created: whenever the page returns, the database is unchanged and no message of
  success is shown. The failure is \<open>InvalidInput\<close>, shown as the error of the procedure,
  when the storage works, the subject and the interval pass the tests of the page, the
  room exists and the slot is free; when the slot is taken the page answers "La salle
  n'est pas disponible pour ce creneau" instead, before the duration is looked at. The
  duration is checked by \<^verbatim>\<open>sp_ReserverSalle\<close>, modelled from the specification.
\<close>

theorem reservation_page_duree_hors_bornes:
  assumes "find (\<lambda>t. TypeID t = type_selected f) (TypesEvenements db) = Some t"
    and "\<not> duree_admise t (heure_debut f) (heure_fin f)"
  shows "(\<forall>msgs db'. reservation_page s_salles s_types s_dispo s_proc h db user f = Inr (msgs, db')
            \<longrightarrow> db' = db \<and> \<not> list_ex succes msgs)
         \<and> (requete_salles db \<noteq> [] \<and> strip (objet_reunion f) \<noteq> [] \<and>
            heure_debut f < heure_fin f \<longrightarrow>
              (fn_SalleDisponible db (salle_selected f) (date_reservation f)
                 (heure_debut f) (heure_fin f) \<and>
               (\<exists>s\<in>set (Salles db). SalleID s = salle_selected f) \<longrightarrow>
                 reservation_page Operationnel Operationnel Operationnel Operationnel h db user f =
                   Inr ([ErreurProcedure InvalidInput], db))
              \<and> (\<not> fn_SalleDisponible db (salle_selected f) (date_reservation f)
                     (heure_debut f) (heure_fin f) \<longrightarrow>
                 reservation_page Operationnel Operationnel Operationnel s_proc h db user f =
                   Inr ([SalleNonDisponible], db)))"
proof -
  have proc: "sp_ReserverSalle h u (salle_selected f) (type_selected f) objet d
                (heure_debut f) (heure_fin f) db \<noteq> Inr db'" for u objet d db'
    using assms by (simp add: sp_ReserverSalle_def split: option.splits)
  have 1: "db' = db \<and> \<not> list_ex succes msgs"
    if e: "reservation_page s_salles s_types s_dispo s_proc h db user f = Inr (msgs, db')"
    for msgs db'
  proof (rule ccontr)
    assume "\<not> (db' = db \<and> \<not> list_ex succes msgs)"
    then have "exec_sql h (params_reservation user f) db = Inr db'"
      using reservation_page_cases [OF e] by blast
    then show False using proc by (simp add: params_reservation_def)
  qed
  have types: "requete_types_evenements db \<noteq> []"
  proof -
    have "TypesEvenements db \<noteq> []" using assms(1) by auto
    then have "set (requete_types_evenements db) \<noteq> {}"
      by (simp add: requete_types_evenements_def)
    then show ?thesis by auto
  qed
  have 2: "reservation_page Operationnel Operationnel Operationnel Operationnel h db user f =
             Inr ([ErreurProcedure InvalidInput], db)"
    if g: "requete_salles db \<noteq> []" "strip (objet_reunion f) \<noteq> []" "heure_debut f < heure_fin f"
      and d: "fn_SalleDisponible db (salle_selected f) (date_reservation f)
                (heure_debut f) (heure_fin f)"
      and r: "\<exists>s\<in>set (Salles db). SalleID s = salle_selected f"
  proof -
    obtain s where s: "find (\<lambda>s. SalleID s = salle_selected f) (Salles db) = Some s"
      using r by (cases "find (\<lambda>s. SalleID s = salle_selected f) (Salles db)")
        (auto simp: find_None_iff)
    have "exec_sql h (params_reservation user f) db = Inl InvalidInput"
      using s assms by (simp add: params_reservation_def sp_ReserverSalle_def)
    then show ?thesis using g d types
      by (simp add: reservation_page_def get_salles_def get_types_evenements_def
          check_availability_def execute_query_def execute_procedure_def)
  qed
  have 3: "reservation_page Operationnel Operationnel Operationnel s_proc h db user f =
             Inr ([SalleNonDisponible], db)"
    if g: "requete_salles db \<noteq> []" "strip (objet_reunion f) \<noteq> []" "heure_debut f < heure_fin f"
      and d: "\<not> fn_SalleDisponible db (salle_selected f) (date_reservation f)
                (heure_debut f) (heure_fin f)"
    using g d types
    by (simp add: reservation_page_def get_salles_def get_types_evenements_def
        check_availability_def execute_query_def)
  from 1 2 3 show ?thesis by blast
qed

theorem reservation_page_duree_hors_bornes_witness:
  "reservation_page Operationnel Operationnel Operationnel Operationnel horloge_1 base_vide alice
     (demande t0900 t0910 (py ''Point'')) = Inr ([ErreurProcedure InvalidInput], base_vide)"
proof -
  let ?f = "demande t0900 t0910 (py ''Point'')"
  have a: "find (\<lambda>t. TypeID t = type_selected ?f) (TypesEvenements base_vide) = Some type_reunion"
    by (simp add: demande_def base_vide_def type_reunion_def)
  have b: "\<not> duree_admise type_reunion (heure_debut ?f) (heure_fin ?f)"
    by (simp add: demande_def duree_admise_def type_reunion_def t0900_def t0910_def)
  have c: "requete_salles base_vide \<noteq> []"
    by (simp add: requete_salles_def base_vide_def salle_R101_def)
  have d: "strip (objet_reunion ?f) \<noteq> []"
    by (simp add: demande_def strip_def py_def py_isspace_def)
  have e: "heure_debut ?f < heure_fin ?f"
    by (simp add: demande_def t0900_def t0910_def)
  have g: "fn_SalleDisponible base_vide (salle_selected ?f) (date_reservation ?f)
             (heure_debut ?f) (heure_fin ?f)"
    by (simp add: fn_SalleDisponible_def base_vide_def)
  have i: "\<exists>s\<in>set (Salles base_vide). SalleID s = salle_selected ?f"
    by (simp add: base_vide_def salle_R101_def demande_def)
  show ?thesis
    using reservation_page_duree_hors_bornes [OF a b] c d e g i by blast
qed


section \<open>The subject of a reservation\<close>

text \<open>
  Claim C10. A form whose subject consists of white space only is treated exactly as
  the same form with an empty subject, whatever the storage does, and no reservation is
  created. When a request is accepted (the message of success is shown), the page has
  called \<^verbatim>\<open>sp_ReserverSalle\<close> with the stripped subject, and the row that the procedure
  (modelled from the specification) has added to the table has this stripped subject:
  the submitted subject is a run of white space, then the stored subject, then a run
  of white space, and the stored subject neither begins nor ends with white space.
\<close>

theorem reservation_page_objet_normalise:
  "(list_all py_isspace (objet_reunion f) \<longrightarrow>
      reservation_page s_salles s_types s_dispo s_proc h db user f =
        reservation_page s_salles s_types s_dispo s_proc h db user (f\<lparr>objet_reunion := []\<rparr>)
      \<and> (\<forall>msgs db'. reservation_page s_salles s_types s_dispo s_proc h db user f = Inr (msgs, db')
            \<longrightarrow> db' = db \<and> \<not> list_ex succes msgs))
   \<and> (\<forall>msgs db'.
        reservation_page s_salles s_types s_dispo s_proc h db user f = Inr (msgs, db') \<and>
        list_ex succes msgs \<longrightarrow>
          exec_sql h
            (Sp_ReserverSalle (UserID user) (salle_selected f) (type_selected f)
               (strip (objet_reunion f)) (date_reservation f) (heure_debut f) (heure_fin f) 0)
            db = Inr db'
          \<and> (\<exists>r. Reservations db' = Reservations db @ [r] \<and>
                   ObjetReunion r = strip (objet_reunion f))
          \<and> (\<exists>a b. objet_reunion f = a @ strip (objet_reunion f) @ b \<and>
                     list_all py_isspace a \<and> list_all py_isspace b)
          \<and> strip (objet_reunion f) \<noteq> []
          \<and> \<not> py_isspace (hd (strip (objet_reunion f)))
          \<and> \<not> py_isspace (last (strip (objet_reunion f))))"
proof -
  have 1: "reservation_page s_salles s_types s_dispo s_proc h db user f =
             reservation_page s_salles s_types s_dispo s_proc h db user (f\<lparr>objet_reunion := []\<rparr>)
           \<and> (\<forall>msgs db'. reservation_page s_salles s_types s_dispo s_proc h db user f
                  = Inr (msgs, db') \<longrightarrow> db' = db \<and> \<not> list_ex succes msgs)"
    if w: "list_all py_isspace (objet_reunion f)"
  proof -
    have v: "strip (objet_reunion f) = []" using w by (simp add: strip_vide_iff)
    have v': "strip [] = []" by (simp add: strip_def)
    have a: "reservation_page s_salles s_types s_dispo s_proc h db user f =
             reservation_page s_salles s_types s_dispo s_proc h db user (f\<lparr>objet_reunion := []\<rparr>)"
      using v v' by (simp add: reservation_page_def split: sum.splits prod.splits)
    have b: "db' = db \<and> \<not> list_ex succes msgs"
      if e: "reservation_page s_salles s_types s_dispo s_proc h db user f = Inr (msgs, db')"
      for msgs db'
      using reservation_page_cases [OF e] v by blast
    from a b show ?thesis by blast
  qed
  have 2: "exec_sql h
            (Sp_ReserverSalle (UserID user) (salle_selected f) (type_selected f)
               (strip (objet_reunion f)) (date_reservation f) (heure_debut f) (heure_fin f) 0)
            db = Inr db'
          \<and> (\<exists>r. Reservations db' = Reservations db @ [r] \<and>
                   ObjetReunion r = strip (objet_reunion f))
          \<and> (\<exists>a b. objet_reunion f = a @ strip (objet_reunion f) @ b \<and>
                     list_all py_isspace a \<and> list_all py_isspace b)
          \<and> strip (objet_reunion f) \<noteq> []
          \<and> \<not> py_isspace (hd (strip (objet_reunion f)))
          \<and> \<not> py_isspace (last (strip (objet_reunion f)))"
    if e: "reservation_page s_salles s_types s_dispo s_proc h db user f = Inr (msgs, db')"
      and m: "list_ex succes msgs" for msgs db'
  proof -
    from reservation_page_cases [OF e] m
    have n: "strip (objet_reunion f) \<noteq> []"
      and x: "exec_sql h (params_reservation user f) db = Inr db'"
      by auto
    have x': "sp_ReserverSalle h (UserID user) (salle_selected f) (type_selected f)
                (strip (objet_reunion f)) (date_reservation f) (heure_debut f) (heure_fin f) db
              = Inr db'"
      using x by (simp add: params_reservation_def)
    have r: "\<exists>r. Reservations db' = Reservations db @ [r] \<and>
                  ObjetReunion r = strip (objet_reunion f)"
      using sp_ReserverSalle_effet [OF x'] by blast
    show ?thesis
      using x' r n strip_decomposition [of "objet_reunion f"] strip_bords [OF n] by simp
  qed
  from 1 2 show ?thesis by blast
qed

theorem reservation_page_objet_normalise_witness:
  "reservation_page Operationnel Operationnel Operationnel Operationnel horloge_1 base_vide alice
     (demande t0900 t1000 [32, 9, 160]) = Inr ([ObjetObligatoire], base_vide)
   \<and> (\<exists>db' r. reservation_page Operationnel Operationnel Operationnel Operationnel horloge_1
                base_vide alice (demande t0900 t1000 ([32, 9] @ py ''Revue'' @ [10]))
                = Inr ([ReservationCreee], db')
              \<and> Reservations db' = [r] \<and> ObjetReunion r = py ''Revue'')"
proof -
  let ?f = "demande t0900 t1000 [32, 9, 160]"
  let ?g = "demande t0900 t1000 ([32, 9] @ py ''Revue'' @ [10])"
  have q: "requete_salles base_vide = [salle_R101] \<and>
           requete_types_evenements base_vide = [type_reunion]"
    by (simp add: requete_salles_def requete_types_evenements_def base_vide_def salle_R101_def)
  have a: "list_all py_isspace (objet_reunion ?f)"
    by (simp add: demande_def py_isspace_def)
  have "reservation_page Operationnel Operationnel Operationnel Operationnel horloge_1
          base_vide alice ?f =
        reservation_page Operationnel Operationnel Operationnel Operationnel horloge_1
          base_vide alice (?f\<lparr>objet_reunion := []\<rparr>)"
    using reservation_page_objet_normalise [of ?f] a by blast
  also have "\<dots> = Inr ([ObjetObligatoire], base_vide)"
    using q
    by (simp add: reservation_page_def get_salles_def get_types_evenements_def
        execute_query_def demande_def strip_def)
  finally have A: "reservation_page Operationnel Operationnel Operationnel Operationnel
      horloge_1 base_vide alice ?f = Inr ([ObjetObligatoire], base_vide)" .
  have s: "strip (objet_reunion ?g) = py ''Revue''"
    by (simp add: demande_def strip_def py_def py_isspace_def)
  let ?r = "\<lparr>ReservationID = 1, r_UserID = 1, r_SalleID = 101, r_TypeID = 1,
             ObjetReunion = py ''Revue'', DateReservation = 739038, HeureDebut = t0900,
             HeureFin = t1000, Statut = EnAttente, DateCreation = 1000, Commentaires = None,
             ManagerID = None\<rparr>"
  have x: "exec_sql horloge_1 (params_reservation alice ?g) base_vide =
             Inr (base_vide\<lparr>Reservations := [?r]\<rparr>)"
    using s
    by (simp add: params_reservation_def sp_ReserverSalle_def demande_def base_vide_def
        salle_R101_def type_reunion_def IsValid_def duree_admise_def fn_SalleDisponible_def
        nouvel_identifiant_def horloge_1_def alice_def t0900_def t1000_def)
  have n: "strip (objet_reunion ?g) \<noteq> []" using s by (simp add: py_def)
  have d: "fn_SalleDisponible base_vide 101 739038 t0900 t1000"
    by (simp add: fn_SalleDisponible_def base_vide_def)
  have p: "reservation_page Operationnel Operationnel Operationnel Operationnel horloge_1
             base_vide alice ?g = Inr ([ReservationCreee], base_vide\<lparr>Reservations := [?r]\<rparr>)"
    using q n x d
    by (simp add: reservation_page_def get_salles_def get_types_evenements_def
        execute_query_def check_availability_def execute_procedure_def
        t0900_def t1000_def demande_def)
  have m: "list_ex succes [ReservationCreee]" by (simp add: succes_def)
  have "\<exists>r. Reservations (base_vide\<lparr>Reservations := [?r]\<rparr>) = Reservations base_vide @ [r] \<and>
             ObjetReunion r = strip (objet_reunion ?g)"
    using reservation_page_objet_normalise [of ?g Operationnel Operationnel Operationnel
        Operationnel horloge_1 base_vide alice] p m by blast
  then have B: "\<exists>r. Reservations (base_vide\<lparr>Reservations := [?r]\<rparr>) = [r] \<and>
                    ObjetReunion r = py ''Revue''"
    using s by (simp add: base_vide_def)
  from A B p show ?thesis by blast
qed

section \<open>The list of the pending reservations\<close>

lemma singleton_de_longueur:
  assumes "length xs = 1"
  shows "\<exists>x. xs = [x]"
  using assms by (cases xs) auto

lemma jointure_pending_integre:
  assumes "length (filter (\<lambda>u. r_UserID r = UserID u) (Utilisateurs db)) = 1"
    and "length (filter (\<lambda>s. r_SalleID r = SalleID s) (Salles db)) = 1"
    and "length (filter (\<lambda>te. r_TypeID r = TypeID te) (TypesEvenements db)) = 1"
  shows "\<exists>u s te. jointure_pending db r = [ligne_de r u s te]"
proof -
  obtain u where u: "filter (\<lambda>u. r_UserID r = UserID u) (Utilisateurs db) = [u]"
    using singleton_de_longueur [OF assms(1)] by blast
  obtain s where s: "filter (\<lambda>s. r_SalleID r = SalleID s) (Salles db) = [s]"
    using singleton_de_longueur [OF assms(2)] by blast
  obtain te where te: "filter (\<lambda>te. r_TypeID r = TypeID te) (TypesEvenements db) = [te]"
    using singleton_de_longueur [OF assms(3)] by blast
  have "jointure_pending db r = [ligne_de r u s te]"
    by (simp add: jointure_pending_def u s te)
  then show ?thesis by blast
qed

lemma jointures_integres:
  assumes "list_all (\<lambda>r.
       length (filter (\<lambda>u. r_UserID r = UserID u) (Utilisateurs db)) = 1 \<and>
       length (filter (\<lambda>s. r_SalleID r = SalleID s) (Salles db)) = 1 \<and>
       length (filter (\<lambda>te. r_TypeID r = TypeID te) (TypesEvenements db)) = 1) rs"
  shows "map (\<lambda>l. (lp_ReservationID l, lp_ObjetReunion l, lp_DateReservation l,
                   lp_HeureDebut l, lp_HeureFin l, lp_DateCreation l))
           (concat (map (jointure_pending db) rs)) =
         map (\<lambda>r. (ReservationID r, ObjetReunion r, DateReservation r,
                   HeureDebut r, HeureFin r, DateCreation r)) rs"
  using assms
proof (induction rs)
  case Nil
  then show ?case by simp
next
  case (Cons r rs)
  then obtain u s te where j: "jointure_pending db r = [ligne_de r u s te]"
    using jointure_pending_integre [of r db] by auto
  show ?case using Cons by (simp add: j ligne_de_def)
qed

text \<open>
  Claim C9, as stated, fails: when the query raises, \<^verbatim>\<open>get_reservations_pending\<close> shows
  the message of \<^verbatim>\<open>execute_query\<close> and returns an empty frame although a reservation is
  pending, and it returns an empty frame without any message when there is no
  connection.
\<close>

theorem get_reservations_pending_echec_counterexample:
  "Reservations base_A = [reservation_A] \<and> Statut reservation_A = EnAttente
   \<and> get_reservations_pending EchecRequete base_A = Inr ([ErreurRequete], [])
   \<and> get_reservations_pending SansConnexion base_A = Inr ([], [])"
  by (simp add: get_reservations_pending_def execute_query_def base_A_def reservation_A_def)

text \<open>
  Claim C9, amended. \<^verbatim>\<open>get_reservations_pending\<close> returns the rows of its statement when
  the database evaluates it, and an empty frame when the query fails (an exception
  when the connection cannot be opened). The rows of the statement are in ascending
  order of \<^verbatim>\<open>DateCreation\<close>, oldest first; each of them is a reservation whose status is
  \<^verbatim>\<open>'EnAttente'\<close>; and when every reservation has exactly one user, one room and one
  event type (the inner joins then neither drop nor repeat a reservation), the rows
  are exactly the pending reservations, each one once.
\<close>

theorem get_reservations_pending_resultat:
  "get_reservations_pending s db =
     (case s of
        ConnexionImpossible \<Rightarrow> Inl StorageUnavailable
      | SansConnexion \<Rightarrow> Inr ([], [])
      | EchecRequete \<Rightarrow> Inr ([ErreurRequete], [])
      | Operationnel \<Rightarrow> Inr ([], requete_reservations_pending db))
   \<and> sorted (map lp_DateCreation (requete_reservations_pending db))
   \<and> (\<forall>l\<in>set (requete_reservations_pending db).
        \<exists>r\<in>set (Reservations db). Statut r = EnAttente \<and>
          lp_ReservationID l = ReservationID r \<and> lp_DateCreation l = DateCreation r)
   \<and> (integrite db \<longrightarrow>
        mset (map (\<lambda>l. (lp_ReservationID l, lp_ObjetReunion l, lp_DateReservation l,
                        lp_HeureDebut l, lp_HeureFin l, lp_DateCreation l))
                (requete_reservations_pending db)) =
        mset (map (\<lambda>r. (ReservationID r, ObjetReunion r, DateReservation r,
                        HeureDebut r, HeureFin r, DateCreation r))
                (filter (\<lambda>r. Statut r = EnAttente) (Reservations db))))"
proof -
  have 1: "get_reservations_pending s db =
     (case s of
        ConnexionImpossible \<Rightarrow> Inl StorageUnavailable
      | SansConnexion \<Rightarrow> Inr ([], [])
      | EchecRequete \<Rightarrow> Inr ([ErreurRequete], [])
      | Operationnel \<Rightarrow> Inr ([], requete_reservations_pending db))"
    by (cases s) (simp_all add: get_reservations_pending_def execute_query_def)
  have 2: "sorted (map lp_DateCreation (requete_reservations_pending db))"
    by (simp add: requete_reservations_pending_def)
  have 3: "\<forall>l\<in>set (requete_reservations_pending db).
        \<exists>r\<in>set (Reservations db). Statut r = EnAttente \<and>
          lp_ReservationID l = ReservationID r \<and> lp_DateCreation l = DateCreation r"
    by (auto simp: requete_reservations_pending_def jointure_pending_def ligne_de_def)
  have 4: "mset (map (\<lambda>l. (lp_ReservationID l, lp_ObjetReunion l, lp_DateReservation l,
                        lp_HeureDebut l, lp_HeureFin l, lp_DateCreation l))
                (requete_reservations_pending db)) =
        mset (map (\<lambda>r. (ReservationID r, ObjetReunion r, DateReservation r,
                        HeureDebut r, HeureFin r, DateCreation r))
                (filter (\<lambda>r. Statut r = EnAttente) (Reservations db)))"
    if i: "integrite db"
  proof -
    let ?p = "\<lambda>l. (lp_ReservationID l, lp_ObjetReunion l, lp_DateReservation l,
                   lp_HeureDebut l, lp_HeureFin l, lp_DateCreation l)"
    let ?rs = "filter (\<lambda>r. Statut r = EnAttente) (Reservations db)"
    have "list_all (\<lambda>r.
       length (filter (\<lambda>u. r_UserID r = UserID u) (Utilisateurs db)) = 1 \<and>
       length (filter (\<lambda>s. r_SalleID r = SalleID s) (Salles db)) = 1 \<and>
       length (filter (\<lambda>te. r_TypeID r = TypeID te) (TypesEvenements db)) = 1) ?rs"
      using i by (simp add: integrite_def list_all_iff)
    then have j: "map ?p (concat (map (jointure_pending db) ?rs)) =
          map (\<lambda>r. (ReservationID r, ObjetReunion r, DateReservation r,
                    HeureDebut r, HeureFin r, DateCreation r)) ?rs"
      by (rule jointures_integres)
    have "mset (map ?p (requete_reservations_pending db)) =
          mset (map ?p (concat (map (jointure_pending db) ?rs)))"
      by (simp add: requete_reservations_pending_def)
    then show ?thesis using j by simp
  qed
  from 1 2 3 4 show ?thesis by blast
qed

theorem get_reservations_pending_resultat_witness:
  "integrite base_A
   \<and> mset (map (\<lambda>l. (lp_ReservationID l, lp_ObjetReunion l, lp_DateReservation l,
                     lp_HeureDebut l, lp_HeureFin l, lp_DateCreation l))
             (requete_reservations_pending base_A)) =
     {#(1, py ''Revue'', 739038, t0900, t1000, 1000)#}"
proof -
  have i: "integrite base_A"
    by (simp add: integrite_def base_A_def base_vide_def reservation_A_def alice_def bob_def
        salle_R101_def type_reunion_def)
  have "mset (map (\<lambda>l. (lp_ReservationID l, lp_ObjetReunion l, lp_DateReservation l,
                        lp_HeureDebut l, lp_HeureFin l, lp_DateCreation l))
                (requete_reservations_pending base_A)) =
        mset (map (\<lambda>r. (ReservationID r, ObjetReunion r, DateReservation r,
                        HeureDebut r, HeureFin r, DateCreation r))
                (filter (\<lambda>r. Statut r = EnAttente) (Reservations base_A)))"
    using get_reservations_pending_resultat [of Operationnel base_A] i by blast
  then show ?thesis using i by (simp add: base_A_def reservation_A_def)
qed

end
